theory Spec2Isabelle
  imports Main "HOL-Library.Log_Nat" "HOL-Library.AList"
begin

section \<open>Python values\<close>

subsection \<open>Floats\<close>

text \<open>
  A Python \<^verbatim>\<open>float\<close> is an IEEE 754 binary64 value: a finite number, one of the two
  infinities, or a NaN. A finite value is kept as the rational it denotes; the two signed
  zeros are one value here (they compare equal in Python and no operation of the program
  tells them apart). Every arithmetic result passes through \<open>fl\<close>, the rounding to the
  nearest binary64 value with ties to even, which overflows to an infinity.
\<close>

datatype pyfloat = Finite rat | PInf | NInf | NaN

definition floor_log2 :: "rat \<Rightarrow> int" where
  \<comment> \<open>for \<open>0 < a\<close>: the \<open>k\<close> with \<open>2 powi k \<le> a < 2 powi (k + 1)\<close>\<close>
  "floor_log2 a =
     (let (p, q) = quotient_of a; k = bitlen p - bitlen q
      in if 2 powi k \<le> a then k else k - 1)"

definition round_half_even :: "rat \<Rightarrow> int" where
  "round_half_even x =
     (let n = \<lfloor>x\<rfloor>; r = x - of_int n
      in if r < 1 / 2 then n
         else if 1 / 2 < r then n + 1
         else if even n then n else n + 1)"

definition fl :: "rat \<Rightarrow> pyfloat" where
  \<comment> \<open>53 bits of precision, least exponent \<open>- 1022\<close> (subnormals below it), overflow at \<open>2 ^ 1024\<close>\<close>
  "fl x =
     (if x = 0 then Finite 0
      else
        let a = \<bar>x\<bar>;
            e = max (floor_log2 a) (- 1022);
            u = 2 powi (e - 52);
            r = of_int (round_half_even (a / u)) * u
        in if 2 ^ 1024 \<le> r then (if 0 < x then PInf else NInf)
           else Finite (if 0 < x then r else - r))"

fun is_finite :: "pyfloat \<Rightarrow> bool" where
  "is_finite (Finite x) = True"
| "is_finite PInf = False"
| "is_finite NInf = False"
| "is_finite NaN = False"

fun fneg :: "pyfloat \<Rightarrow> pyfloat" where
  "fneg (Finite x) = Finite (- x)"
| "fneg PInf = NInf"
| "fneg NInf = PInf"
| "fneg NaN = NaN"

fun fadd :: "pyfloat \<Rightarrow> pyfloat \<Rightarrow> pyfloat" where
  "fadd NaN y = NaN"
| "fadd x NaN = NaN"
| "fadd PInf NInf = NaN"
| "fadd NInf PInf = NaN"
| "fadd PInf y = PInf"
| "fadd NInf y = NInf"
| "fadd x PInf = PInf"
| "fadd x NInf = NInf"
| "fadd (Finite x) (Finite y) = fl (x + y)"

definition fsub :: "pyfloat \<Rightarrow> pyfloat \<Rightarrow> pyfloat" where
  "fsub x y = fadd x (fneg y)"

fun fle :: "pyfloat \<Rightarrow> pyfloat \<Rightarrow> bool" where
  \<comment> \<open>Python's \<^verbatim>\<open><=\<close>: every comparison with a NaN is false\<close>
  "fle NaN y = False"
| "fle x NaN = False"
| "fle NInf y = True"
| "fle x PInf = True"
| "fle PInf y = False"
| "fle x NInf = False"
| "fle (Finite x) (Finite y) = (x \<le> y)"

fun feq :: "pyfloat \<Rightarrow> pyfloat \<Rightarrow> bool" where
  \<comment> \<open>Python's \<^verbatim>\<open>==\<close>: a NaN equals nothing, itself included\<close>
  "feq NaN y = False"
| "feq x NaN = False"
| "feq x y = (x = y)"

subsection \<open>Exceptions and objects\<close>

datatype exn = TypeError | ValueError | OverflowError | KeyError | OSError

text \<open>
  The objects \<^verbatim>\<open>json.load\<close> builds, and the program then updates: a \<^verbatim>\<open>dict\<close> is the list
  of its items in insertion order (\<open>map_of\<close> reads a key, \<open>AList.update\<close> is
  \<^verbatim>\<open>d[k] = v\<close>: in place for a key that is there, at the end for a new one).
\<close>

datatype pyval =
    PyNone
  | PyBool bool
  | PyInt int
  | PyFloat pyfloat
  | PyStr string
  | PyList "pyval list"
  | PyDict "(string \<times> pyval) list"

type_synonym pydict = "(string \<times> pyval) list"

subsection \<open>\<^verbatim>\<open>str.strip\<close> and \<^verbatim>\<open>float\<close>\<close>

text \<open>
  A \<open>char\<close> is a code point below 256. \<^verbatim>\<open>str.strip()\<close> removes the characters for which
  \<^verbatim>\<open>str.isspace\<close> holds; \<^verbatim>\<open>float\<close> itself strips the six ASCII ones only, after it has
  turned every other space into \<^verbatim>\<open>' '\<close>.
\<close>

definition is_unicode_space :: "char \<Rightarrow> bool" where
  "is_unicode_space c =
     (let n = (of_char c :: nat)
      in (9 \<le> n \<and> n \<le> 13) \<or> (28 \<le> n \<and> n \<le> 32) \<or> n = 133 \<or> n = 160)"

definition is_ascii_space :: "char \<Rightarrow> bool" where
  "is_ascii_space c = (let n = (of_char c :: nat) in (9 \<le> n \<and> n \<le> 13) \<or> n = 32)"

definition is_digit :: "char \<Rightarrow> bool" where
  "is_digit c = (let n = (of_char c :: nat) in 48 \<le> n \<and> n \<le> 57)"

definition lower :: "char \<Rightarrow> char" where
  "lower c = (let n = (of_char c :: nat) in if 65 \<le> n \<and> n \<le> 90 then char_of (n + 32) else c)"

definition strip_with :: "(char \<Rightarrow> bool) \<Rightarrow> string \<Rightarrow> string" where
  "strip_with sp s = rev (dropWhile sp (rev (dropWhile sp s)))"

definition py_strip :: "string \<Rightarrow> string" where
  "py_strip s = strip_with is_unicode_space s"

fun drop_underscores :: "char \<Rightarrow> string \<Rightarrow> string option" where
  \<comment> \<open>an underscore stands between two digits only; the first argument is the character before\<close>
  "drop_underscores prev [] = (if prev = CHR ''_'' then None else Some [])"
| "drop_underscores prev (c # cs) =
     (if c = CHR ''_'' then
        (if is_digit prev then drop_underscores c cs else None)
      else if prev = CHR ''_'' \<and> \<not> is_digit c then None
      else map_option ((#) c) (drop_underscores c cs))"

definition digits_value :: "string \<Rightarrow> nat" where
  "digits_value ds = foldl (\<lambda>n c. 10 * n + (of_char c - 48)) 0 ds"

definition split_sign :: "string \<Rightarrow> bool \<times> string" where
  "split_sign s =
     (case s of
        [] \<Rightarrow> (False, [])
      | c # t \<Rightarrow> if c = CHR ''-'' then (True, t) else if c = CHR ''+'' then (False, t) else (False, s))"

definition parse_exponent :: "string \<Rightarrow> int option" where
  \<comment> \<open>what follows the mantissa: nothing, or \<^verbatim>\<open>e\<close>, an optional sign and at least one digit\<close>
  "parse_exponent s =
     (case s of
        [] \<Rightarrow> Some 0
      | c # t \<Rightarrow>
          if c = CHR ''e'' \<or> c = CHR ''E'' then
            (let (neg, ds) = split_sign t
             in if ds \<noteq> [] \<and> list_all is_digit ds
                then Some (if neg then - int (digits_value ds) else int (digits_value ds))
                else None)
          else None)"

definition parse_decimal :: "string \<Rightarrow> rat option" where
  "parse_decimal s =
     (let ip = takeWhile is_digit s; r1 = dropWhile is_digit s;
          (fp, r2) =
            (case r1 of
               [] \<Rightarrow> ([], r1)
             | c # t \<Rightarrow> if c = CHR ''.'' then (takeWhile is_digit t, dropWhile is_digit t) else ([], r1))
      in if ip = [] \<and> fp = [] then None
         else
           (case parse_exponent r2 of
              None \<Rightarrow> None
            | Some ex \<Rightarrow> Some (of_nat (digits_value (ip @ fp)) * 10 powi (ex - int (length fp)))))"

definition parse_float :: "string \<Rightarrow> pyfloat option" where
  \<comment> \<open>the text with no space around it: a decimal number, or \<^verbatim>\<open>inf\<close>, \<^verbatim>\<open>infinity\<close>, \<^verbatim>\<open>nan\<close> in any case\<close>
  "parse_float s =
     (let (neg, r) = split_sign s; w = map lower r
      in if w = ''inf'' \<or> w = ''infinity'' then Some (if neg then NInf else PInf)
         else if w = ''nan'' then Some NaN
         else
           (case parse_decimal r of
              None \<Rightarrow> None
            | Some q \<Rightarrow> Some (fl (if neg then - q else q))))"

definition float_of_str :: "string \<Rightarrow> exn + pyfloat" where
  \<comment> \<open>\<^verbatim>\<open>float(s)\<close> for a string\<close>
  "float_of_str s =
     (case drop_underscores (CHR 0x00) (map (\<lambda>c. if is_unicode_space c \<and> \<not> is_ascii_space c \<and> 127 \<le> (of_char c :: nat) then CHR '' '' else c) s) of
        None \<Rightarrow> Inl ValueError
      | Some t \<Rightarrow>
          (case parse_float (strip_with is_ascii_space t) of
             None \<Rightarrow> Inl ValueError
           | Some v \<Rightarrow> Inr v))"

definition float_of_int :: "int \<Rightarrow> exn + pyfloat" where
  \<comment> \<open>\<^verbatim>\<open>float(n)\<close> for an \<^verbatim>\<open>int\<close>: the nearest float, \<^verbatim>\<open>OverflowError\<close> beyond the range\<close>
  "float_of_int n = (case fl (of_int n) of Finite x \<Rightarrow> Inr (Finite x) | _ \<Rightarrow> Inl OverflowError)"

fun py_float :: "pyval \<Rightarrow> exn + pyfloat" where
  "py_float PyNone = Inl TypeError"
| "py_float (PyBool b) = Inr (Finite (if b then 1 else 0))"
| "py_float (PyInt n) = float_of_int n"
| "py_float (PyFloat x) = Inr x"
| "py_float (PyStr s) = float_of_str s"
| "py_float (PyList xs) = Inl TypeError"
| "py_float (PyDict d) = Inl TypeError"

section \<open>Input validator\<close>

text \<open>
  \<^verbatim>\<open>validate_number\<close> returns a pair \<^verbatim>\<open>(False, message)\<close> or \<^verbatim>\<open>(True, value)\<close>: \<open>Inl\<close> the
  message, \<open>Inr\<close> the value.
\<close>

definition validate_number :: "string \<Rightarrow> string + pyfloat" where
  "validate_number txt =
     (let s = py_strip txt
      in if s = [] then Inl ''No input provided.''
         else
           (case float_of_str s of
              Inl e \<Rightarrow> Inl ''Number is invalid or input was not a number.\<newline>Example: 500; 503.81\<newline>No Symbols.''
            | Inr v \<Rightarrow> if fle v (Finite 0) then Inl ''Value must be greater than 0.'' else Inr v))"

section \<open>Configuration\<close>

text \<open>
  \<^verbatim>\<open>PROGRAM_FILENAME\<close> (the stem of \<^verbatim>\<open>sys.argv[0]\<close>, or \<^verbatim>\<open>pf_tracker\<close>) and the directory
  \<^verbatim>\<open>_summary_path\<close> resolves (that of the program, or the working directory) are fixed when
  the process starts; they are the two fields of a \<open>config\<close>.
\<close>

record config =
  PROGRAM_FILENAME :: string
  program_dir :: string

record path =
  parent :: string
  name :: string

definition SUMMARY_FILENAME :: "config \<Rightarrow> string" where
  "SUMMARY_FILENAME cfg = PROGRAM_FILENAME cfg @ ''_summary.json''"

definition BACKUP_SUFFIX :: string where
  "BACKUP_SUFFIX = ''.backup''"

definition INCOME_CATEGORIES :: "string list" where
  "INCOME_CATEGORIES = [''Salary'', ''Gift'', ''Investment'', ''Other'']"

definition EXPENSE_CATEGORIES :: "string list" where
  "EXPENSE_CATEGORIES =
     [''Food'', ''Housing'', ''Transportation'', ''Entertainment'', ''Health'', ''Education'', ''Other'']"

definition zeros :: "string list \<Rightarrow> pyval" where
  \<comment> \<open>\<^verbatim>\<open>{c: 0.0 for c in expected}\<close>\<close>
  "zeros expected = PyDict (map (\<lambda>c. (c, PyFloat (Finite 0))) expected)"

definition DEFAULT_SUMMARY :: pyval where
  "DEFAULT_SUMMARY =
     PyDict [(''income'', zeros INCOME_CATEGORIES), (''expenses'', zeros EXPENSE_CATEGORIES)]"

definition summary_path :: "config \<Rightarrow> path" where
  "summary_path cfg = \<lparr>parent = program_dir cfg, name = SUMMARY_FILENAME cfg\<rparr>"

definition backup_path :: "path \<Rightarrow> path" where
  \<comment> \<open>\<^verbatim>\<open>path.with_suffix(path.suffix + BACKUP_SUFFIX)\<close>: the suffix is appended to the name\<close>
  "backup_path p = p\<lparr>name := name p @ BACKUP_SUFFIX\<rparr>"

section \<open>Files, faults and dialogs\<close>

text \<open>
  What reading makes of a file: \<open>Doc v\<close> is a text \<^verbatim>\<open>json.load\<close> parses to the object \<open>v\<close>
  (and the text \<^verbatim>\<open>json.dump\<close> writes for \<open>v\<close>), \<open>Garbage\<close> a text it rejects with
  \<^verbatim>\<open>JSONDecodeError\<close> (such are the empty file, and a file whose writing stopped half-way),
  \<open>Undecodable\<close> bytes that are no UTF-8 text, at which the read raises
  \<^verbatim>\<open>UnicodeDecodeError\<close>, which is no \<^verbatim>\<open>JSONDecodeError\<close>.
  The file system maps the paths of the files that exist to their contents.
\<close>

datatype content = Undecodable | Garbage | Doc pyval

type_synonym fs = "path \<Rightarrow> content option"

text \<open>
  What the operating system does to one call is an input of that call. Writing a file is
  \<^verbatim>\<open>open(path, "w")\<close>, which empties the file, and then the writing itself: it can fail before
  the file is touched (\<open>OpenFailed\<close>) or after it was emptied (\<open>WriteFailed\<close>).
\<close>

datatype outcome = Done | OpenFailed | WriteFailed

record faults =
  read_fault :: bool          \<comment> \<open>opening or reading the file raises \<^verbatim>\<open>OSError\<close>\<close>
  unlink_fault :: bool        \<comment> \<open>\<^verbatim>\<open>path.unlink\<close> raises\<close>
  write_outcome :: outcome    \<comment> \<open>of opening the file for writing and \<^verbatim>\<open>json.dump\<close>\<close>
  copy_outcome :: outcome     \<comment> \<open>of \<^verbatim>\<open>shutil.copyfile\<close>\<close>
  backup_unlink_fault :: bool \<comment> \<open>\<^verbatim>\<open>backup.unlink\<close> raises\<close>
  detail :: string            \<comment> \<open>the text of the exception raised\<close>

definition no_faults :: faults where
  "no_faults =
     \<lparr>read_fault = False, unlink_fault = False, write_outcome = Done, copy_outcome = Done,
      backup_unlink_fault = False, detail = []\<rparr>"

datatype signal =
    showinfo string string
  | showwarning string string
  | showerror string string

definition write_json :: "outcome \<Rightarrow> fs \<Rightarrow> path \<Rightarrow> pyval \<Rightarrow> fs \<times> exn option" where
  \<comment> \<open>\<^verbatim>\<open>with open(path, "w") as f: json.dump(data, f)\<close>; \<open>Some\<close> the exception raised\<close>
  "write_json oc files p v =
     (case oc of
        Done \<Rightarrow> (files(p \<mapsto> Doc v), None)
      | OpenFailed \<Rightarrow> (files, Some OSError)
      | WriteFailed \<Rightarrow> (files(p \<mapsto> Garbage), Some OSError))"

definition copyfile :: "outcome \<Rightarrow> fs \<Rightarrow> path \<Rightarrow> path \<Rightarrow> fs \<times> exn option" where
  "copyfile oc files src dst =
     (case oc of
        Done \<Rightarrow> (files(dst := files src), None)
      | OpenFailed \<Rightarrow> (files, Some OSError)
      | WriteFailed \<Rightarrow> (files(dst \<mapsto> Garbage), Some OSError))"

fun join :: "string \<Rightarrow> string list \<Rightarrow> string" where
  "join sep [] = []"
| "join sep [x] = x"
| "join sep (x # y # ys) = x @ sep @ join sep (y # ys)"

section \<open>Summary store\<close>

subsection \<open>\<^verbatim>\<open>load_summary_data\<close>\<close>

type_synonym repair_state = "pydict \<times> string list \<times> bool"

definition repair_key :: "string \<Rightarrow> repair_state \<Rightarrow> string \<Rightarrow> repair_state" where
  \<comment> \<open>the body of the loop over \<^verbatim>\<open>expected\<close>, on the dict \<^verbatim>\<open>data[section]\<close>\<close>
  "repair_key section st cat =
     (case st of (sec, repairs, repaired) \<Rightarrow>
        (case map_of sec cat of
           None \<Rightarrow>
             \<comment> \<open>the key is added with \<^verbatim>\<open>0.0\<close>, which \<^verbatim>\<open>float\<close> then leaves as it is\<close>
             (AList.update cat (PyFloat (Finite 0)) sec,
              repairs @ [''Added missing '' @ [CHR 0x27] @ cat @ [CHR 0x27] @ '' in '' @ [CHR 0x27] @ section @ [CHR 0x27] @ ''.''],
              True)
         | Some v \<Rightarrow>
             (case py_float v of
                Inr x \<Rightarrow> (AList.update cat (PyFloat x) sec, repairs, repaired)
              | Inl e \<Rightarrow>
                  (AList.update cat (PyFloat (Finite 0)) sec,
                   repairs @ [''Reset invalid value for '' @ [CHR 0x27] @ cat @ [CHR 0x27] @ '' in '' @ [CHR 0x27] @ section @ [CHR 0x27] @ ''.''],
                   True))))"

definition repair_section :: "repair_state \<Rightarrow> string \<times> string list \<Rightarrow> repair_state" where
  \<comment> \<open>the body of the loop over the two sections, on the dict \<^verbatim>\<open>data\<close>\<close>
  "repair_section st se =
     (case (st, se) of ((data, repairs, repaired), (section, expected)) \<Rightarrow>
        (case map_of data section of
           Some (PyDict sec) \<Rightarrow>
             (case foldl (repair_key section) (sec, repairs, repaired) expected of
                (sec', repairs', repaired') \<Rightarrow>
                  (AList.update section (PyDict sec') data, repairs', repaired'))
         | _ \<Rightarrow>
             (AList.update section (zeros expected) data,
              repairs @ [''Added or replaced section '' @ [CHR 0x27] @ section @ [CHR 0x27] @ ''.''],
              True)))"

definition repair :: "pyval \<Rightarrow> exn + repair_state" where
  \<comment> \<open>lines 81 to 101. On an object that is no dict, \<^verbatim>\<open>section not in data\<close>,
      \<^verbatim>\<open>data[section]\<close> or \<^verbatim>\<open>data[section] = ...\<close> raises \<^verbatim>\<open>TypeError\<close> at the first section.\<close>
  "repair v =
     (case v of
        PyDict data \<Rightarrow>
          Inr (foldl repair_section (data, [], False)
                 [(''income'', INCOME_CATEGORIES), (''expenses'', EXPENSE_CATEGORIES)])
      | _ \<Rightarrow> Inl TypeError)"

definition load_summary_data :: "config \<Rightarrow> faults \<Rightarrow> fs \<Rightarrow> fs \<times> signal list \<times> (exn + pyval)" where
  "load_summary_data cfg io files =
     (let path = summary_path cfg
      in case files path of
           None \<Rightarrow>
             (case write_json (write_outcome io) files path DEFAULT_SUMMARY of
                (files', Some e) \<Rightarrow> (files', [], Inl e)
              | (files', None) \<Rightarrow>
                  (files',
                   [showinfo ''Summary File Created''
                      (''Created '' @ [CHR 0x27] @ SUMMARY_FILENAME cfg @ [CHR 0x27] @ ''.'')],
                   Inr DEFAULT_SUMMARY))
         | Some c \<Rightarrow>
             if read_fault io then
               (files,
                [showerror ''File Error'' (''Unable to read summary file:\<newline>'' @ detail io)],
                Inr DEFAULT_SUMMARY)
             else
               (case c of
                  Undecodable \<Rightarrow>
                    (files,
                     [showerror ''File Error'' (''Unable to read summary file:\<newline>'' @ detail io)],
                     Inr DEFAULT_SUMMARY)
                | Garbage \<Rightarrow>
                    if unlink_fault io then (files, [], Inl OSError)
                    else
                      (case write_json (write_outcome io) (files(path := None)) path DEFAULT_SUMMARY of
                         (files', Some e) \<Rightarrow> (files', [], Inl e)
                       | (files', None) \<Rightarrow>
                           (files',
                            [showwarning ''Corrupted File Replaced''
                               ''Corrupted summary file replaced with a new blank file.''],
                            Inr DEFAULT_SUMMARY))
                | Doc v \<Rightarrow>
                    (case repair v of
                       Inl e \<Rightarrow> (files, [], Inl e)
                     | Inr (data, repairs, repaired) \<Rightarrow>
                         if repaired then
                           (case write_json (write_outcome io) files path (PyDict data) of
                              (files', Some e) \<Rightarrow> (files', [], Inl e)
                            | (files', None) \<Rightarrow>
                                (files',
                                 [showinfo ''Repairs Made'' (join ''\<newline>'' repairs)],
                                 Inr (PyDict data)))
                         else (files, [], Inr (PyDict data)))))"

subsection \<open>\<^verbatim>\<open>save_summary_data\<close>\<close>

definition make_backup :: "config \<Rightarrow> faults \<Rightarrow> fs \<Rightarrow> fs" where
  \<comment> \<open>lines 114 to 118: the copy, its exception swallowed\<close>
  "make_backup cfg io files =
     (let path = summary_path cfg
      in if files path \<noteq> None then fst (copyfile (copy_outcome io) files path (backup_path path))
         else files)"

definition drop_backup :: "config \<Rightarrow> faults \<Rightarrow> fs \<Rightarrow> fs" where
  \<comment> \<open>lines 125 to 129: the deletion, its exception swallowed\<close>
  "drop_backup cfg io files =
     (let backup = backup_path (summary_path cfg)
      in if files backup \<noteq> None \<and> \<not> backup_unlink_fault io then files(backup := None)
         else files)"

definition save_summary_data :: "config \<Rightarrow> faults \<Rightarrow> pyval \<Rightarrow> fs \<Rightarrow> fs \<times> signal list \<times> bool" where
  "save_summary_data cfg io data files =
     (let path = summary_path cfg; backup = backup_path path
      in case write_json (write_outcome io) (make_backup cfg io files) path data of
           (files', Some e) \<Rightarrow>
             (files',
              [showerror ''Save Error''
                 (''Could not save summary. Backup preserved as '' @ [CHR 0x27] @ name backup @ [CHR 0x27]
                  @ ''.\<newline>Details: '' @ detail io)],
              False)
         | (files', None) \<Rightarrow> (drop_backup cfg io files', [], True))"

section \<open>Submitting an amount\<close>






definition on_exit :: "config \<Rightarrow> faults \<Rightarrow> faults \<Rightarrow> fs \<Rightarrow> fs \<times> signal list \<times> exn option" where
  \<comment> \<open>\<^verbatim>\<open>_on_exit\<close> once the user has confirmed: \<^verbatim>\<open>save_summary_data(load_summary_data())\<close>\<close>
  "on_exit cfg io1 io2 files =
     (case load_summary_data cfg io1 files of
        (files1, s1, Inl e) \<Rightarrow> (files1, s1, Some e)
      | (files1, s1, Inr d) \<Rightarrow>
          (case save_summary_data cfg io2 d files1 of (files2, s2, ok) \<Rightarrow> (files2, s1 @ s2, None)))"

section \<open>Summary calculator\<close>

record report =
  total_income :: pyfloat
  total_expenses :: pyfloat
  net_balance :: pyfloat
  income :: pyval
  expenses :: pyval

definition get_section :: "pyval \<Rightarrow> string \<Rightarrow> exn + pyval" where
  \<comment> \<open>\<^verbatim>\<open>data.get(section, {})\<close>\<close>
  "get_section data section =
     (case data of
        PyDict d \<Rightarrow> (case map_of d section of None \<Rightarrow> Inr (PyDict []) | Some v \<Rightarrow> Inr v)
      | _ \<Rightarrow> Inl TypeError)"

definition dict_values :: "pyval \<Rightarrow> exn + pyval list" where
  \<comment> \<open>\<^verbatim>\<open>.values()\<close>, which only a dict has\<close>
  "dict_values v = (case v of PyDict sec \<Rightarrow> Inr (map snd sec) | _ \<Rightarrow> Inl TypeError)"

fun sum_floats :: "pyfloat \<Rightarrow> pyval list \<Rightarrow> exn + pyfloat" where
  \<comment> \<open>\<^verbatim>\<open>sum(float(v) for v in values)\<close>: the values are converted and added one by one from
      the left (the plain float sum of CPython up to 3.11; later versions add a
      compensation term, which is zero whenever no partial sum is rounded); the first
      argument is the running total\<close>
  "sum_floats acc [] = Inr acc"
| "sum_floats acc (v # vs) =
     (case py_float v of Inl e \<Rightarrow> Inl e | Inr x \<Rightarrow> sum_floats (fadd acc x) vs)"

definition values_total :: "pyval \<Rightarrow> exn + pyfloat" where
  \<comment> \<open>\<^verbatim>\<open>sum(float(v) for v in section.values())\<close>; \<^verbatim>\<open>sum\<close> starts from \<^verbatim>\<open>0\<close>\<close>
  "values_total v = (case dict_values v of Inl e \<Rightarrow> Inl e | Inr vs \<Rightarrow> sum_floats (Finite 0) vs)"

definition calculate_summary ::
  "config \<Rightarrow> faults \<Rightarrow> fs \<Rightarrow> fs \<times> signal list \<times> (exn + report option)" where
  "calculate_summary cfg io files =
     (case load_summary_data cfg io files of
        (files1, s1, Inl e) \<Rightarrow> (files1, s1, Inl e)
      | (files1, s1, Inr data) \<Rightarrow>
          (case get_section data ''income'' of
             Inl e \<Rightarrow> (files1, s1, Inl e)
           | Inr inc \<Rightarrow>
               (case values_total inc of
                  Inl e \<Rightarrow> (files1, s1, Inl e)
                | Inr ti \<Rightarrow>
                    (case get_section data ''expenses'' of
                       Inl e \<Rightarrow> (files1, s1, Inl e)
                     | Inr ex \<Rightarrow>
                         (case values_total ex of
                            Inl e \<Rightarrow> (files1, s1, Inl e)
                          | Inr te \<Rightarrow>
                              if feq ti (Finite 0) \<and> feq te (Finite 0) then (files1, s1, Inr None)
                              else
                                (files1, s1,
                                 Inr (Some \<lparr>total_income = ti, total_expenses = te,
                                            net_balance = fsub ti te, income = inc, expenses = ex\<rparr>)))))))"

section \<open>Reading a document\<close>

definition category_total :: "pyval \<Rightarrow> string \<Rightarrow> string \<Rightarrow> pyval option" where
  \<comment> \<open>\<^verbatim>\<open>data[section][cat]\<close>, \<open>None\<close> where there is no such entry\<close>
  "category_total data section cat =
     (case data of
        PyDict d \<Rightarrow> (case map_of d section of Some (PyDict sec) \<Rightarrow> map_of sec cat | _ \<Rightarrow> None)
      | _ \<Rightarrow> None)"

text \<open>
  What the specification says of a loaded document, in its own words: a category that is
  missing, or whose value is no number, counts as \<^verbatim>\<open>0.0\<close>; a section that is missing or no
  dict counts as all zero; a document needs a repair when a section, a key of the registry
  or a convertible value is missing from it.
\<close>

definition fixed_total :: "pydict \<Rightarrow> string \<Rightarrow> pyfloat" where
  "fixed_total sec cat =
     (case map_of sec cat of
        None \<Rightarrow> Finite 0
      | Some v \<Rightarrow> (case py_float v of Inl e \<Rightarrow> Finite 0 | Inr x \<Rightarrow> x))"

definition key_broken :: "pydict \<Rightarrow> string \<Rightarrow> bool" where
  "key_broken sec cat =
     (case map_of sec cat of None \<Rightarrow> True | Some v \<Rightarrow> (case py_float v of Inl e \<Rightarrow> True | Inr x \<Rightarrow> False))"

definition repaired_total :: "pydict \<Rightarrow> string \<Rightarrow> string \<Rightarrow> pyfloat" where
  "repaired_total data section cat =
     (case map_of data section of Some (PyDict sec) \<Rightarrow> fixed_total sec cat | _ \<Rightarrow> Finite 0)"

definition section_broken :: "pydict \<Rightarrow> string \<Rightarrow> string list \<Rightarrow> bool" where
  "section_broken data section expected =
     (case map_of data section of Some (PyDict sec) \<Rightarrow> list_ex (key_broken sec) expected | _ \<Rightarrow> True)"

definition needs_repair :: "pydict \<Rightarrow> bool" where
  "needs_repair data =
     (section_broken data ''income'' INCOME_CATEGORIES
      \<or> section_broken data ''expenses'' EXPENSE_CATEGORIES)"

definition is_float :: "pyval option \<Rightarrow> bool" where
  "is_float v = (case v of Some (PyFloat x) \<Rightarrow> True | _ \<Rightarrow> False)"

definition section_ok :: "pydict \<Rightarrow> string \<Rightarrow> string list \<Rightarrow> bool" where
  \<comment> \<open>the section is a dict in which every category of the registry is a float\<close>
  "section_ok data section expected =
     (case map_of data section of
        Some (PyDict sec) \<Rightarrow> list_all (\<lambda>c. is_float (map_of sec c)) expected
      | _ \<Rightarrow> False)"

definition well_formed :: "pydict \<Rightarrow> bool" where
  "well_formed data =
     (section_ok data ''income'' INCOME_CATEGORIES \<and> section_ok data ''expenses'' EXPENSE_CATEGORIES)"

text \<open>
  The sums the specification of the calculator speaks of: the values of a mapping of the
  loaded document, each as the float \<^verbatim>\<open>float\<close> makes of it, added from the left to
  \<^verbatim>\<open>0\<close>.
\<close>

definition section_values :: "pyval \<Rightarrow> string \<Rightarrow> pyval list" where
  "section_values data section =
     (case data of
        PyDict d \<Rightarrow> (case map_of d section of Some (PyDict sec) \<Rightarrow> map snd sec | _ \<Rightarrow> [])
      | _ \<Rightarrow> [])"

definition convertible :: "pyval \<Rightarrow> bool" where
  "convertible v = (case py_float v of Inl e \<Rightarrow> False | Inr x \<Rightarrow> True)"

definition as_float :: "pyval \<Rightarrow> pyfloat" where
  "as_float v = (case py_float v of Inl e \<Rightarrow> NaN | Inr x \<Rightarrow> x)"

definition py_sum :: "pyfloat list \<Rightarrow> pyfloat" where
  "py_sum xs = foldl fadd (Finite 0) xs"

definition section_sum :: "pyval \<Rightarrow> string \<Rightarrow> pyfloat" where
  "section_sum data section = py_sum (map as_float (section_values data section))"

section \<open>Example data\<close>

text \<open>
  A program \<^verbatim>\<open>project\<close> installed in \<^verbatim>\<open>/app\<close>, a file system whose only file is its summary
  file, and a document with a salary and nothing else.
\<close>

definition example_cfg :: config where
  "example_cfg = \<lparr>PROGRAM_FILENAME = ''project'', program_dir = ''/app''\<rparr>"

definition example_path :: path where
  "example_path = \<lparr>parent = ''/app'', name = ''project_summary.json''\<rparr>"

definition only_file :: "content \<Rightarrow> fs" where
  "only_file c = (\<lambda>p. None)(example_path \<mapsto> c)"

definition salary_doc :: "rat \<Rightarrow> pyval" where
  "salary_doc x =
     PyDict
       [(''income'',
         PyDict [(''Salary'', PyFloat (Finite x)), (''Gift'', PyFloat (Finite 0)),
                 (''Investment'', PyFloat (Finite 0)), (''Other'', PyFloat (Finite 0))]),
        (''expenses'',
         PyDict [(''Food'', PyFloat (Finite 0)), (''Housing'', PyFloat (Finite 0)),
                 (''Transportation'', PyFloat (Finite 0)), (''Entertainment'', PyFloat (Finite 0)),
                 (''Health'', PyFloat (Finite 0)), (''Education'', PyFloat (Finite 0)),
                 (''Other'', PyFloat (Finite 0))])]"



section \<open>Properties of the input validator\<close>

lemma strip_with_Nil_iff: "strip_with sp s = [] \<longleftrightarrow> list_all sp s"
proof
  assume "strip_with sp s = []"
  then have "dropWhile sp (rev (dropWhile sp s)) = []" by (simp add: strip_with_def)
  then have a: "\<forall>x\<in>set (dropWhile sp s). sp x" by (simp add: dropWhile_eq_Nil_conv)
  have "dropWhile sp s = []"
  proof (rule ccontr)
    assume n: "dropWhile sp s \<noteq> []"
    then have "\<not> sp (hd (dropWhile sp s))" by (rule hd_dropWhile)
    moreover have "hd (dropWhile sp s) \<in> set (dropWhile sp s)" using n by (rule hd_in_set)
    ultimately show False using a by blast
  qed
  then show "list_all sp s" by (simp add: dropWhile_eq_Nil_conv list_all_iff)
next
  assume "list_all sp s"
  then have "dropWhile sp s = []" by (simp add: dropWhile_eq_Nil_conv list_all_iff)
  then show "strip_with sp s = []" by (auto simp: strip_with_def dest: set_dropWhileD)
qed

lemma py_strip_Nil_iff: "py_strip txt = [] \<longleftrightarrow> list_all is_unicode_space txt"
  by (simp add: py_strip_def strip_with_Nil_iff)

lemma strip_with_decomp:
  "\<exists>pre post. s = pre @ strip_with sp s @ post \<and> list_all sp pre \<and> list_all sp post"
proof -
  let ?a = "dropWhile sp s"
  have 1: "s = takeWhile sp s @ ?a" by simp
  have 2: "rev ?a = takeWhile sp (rev ?a) @ dropWhile sp (rev ?a)" by simp
  have "?a = rev (dropWhile sp (rev ?a)) @ rev (takeWhile sp (rev ?a))"
    by (metis rev_append rev_rev_ident takeWhile_dropWhile_id)
  then have "s = takeWhile sp s @ strip_with sp s @ rev (takeWhile sp (rev ?a))"
    using 1 by (simp add: strip_with_def)
  moreover have "list_all sp (takeWhile sp s)"
    by (simp add: list_all_iff) (meson set_takeWhileD)
  moreover have "list_all sp (rev (takeWhile sp (rev ?a)))"
    by (simp add: list_all_iff) (meson set_takeWhileD)
  ultimately show ?thesis by blast
qed

lemma strip_with_ends:
  "strip_with sp s \<noteq> [] \<Longrightarrow> \<not> sp (hd (strip_with sp s)) \<and> \<not> sp (last (strip_with sp s))"
proof -
  assume n: "strip_with sp s \<noteq> []"
  let ?a = "dropWhile sp s"
  let ?b = "dropWhile sp (rev ?a)"
  have b: "?b \<noteq> []" using n by (simp add: strip_with_def)
  then have hb: "\<not> sp (hd ?b)" by (rule hd_dropWhile)
  have last: "last (strip_with sp s) = hd ?b" using b by (simp add: strip_with_def last_rev)
  have "?a \<noteq> []" using b by (metis dropWhile.simps(1) rev.simps(1))
  then have ha: "\<not> sp (hd ?a)" by (rule hd_dropWhile)
  have "hd (strip_with sp s) = last ?b" using b by (simp add: strip_with_def hd_rev)
  also have "\<dots> = last (rev ?a)"
    by (metis b dropWhile_eq_Nil_conv last_appendR takeWhile_dropWhile_id append_Nil2)
  also have "\<dots> = hd ?a" using \<open>?a \<noteq> []\<close> by (simp add: last_rev)
  finally show ?thesis using ha hb last by simp
qed

text \<open>
  Claim C3. \<^verbatim>\<open>validate_number\<close> trims the white space around its input
  (\<open>py_strip\<close> removes a prefix and a suffix of white space, and what is left neither
  starts nor ends with one). An input of white space only is invalid with
  \<^verbatim>\<open>No input provided.\<close>; one that \<^verbatim>\<open>float\<close> rejects is invalid with the message on the
  expected format; a parsed value that is \<^verbatim>\<open><= 0\<close> is invalid with
  \<^verbatim>\<open>Value must be greater than 0.\<close>; every other parsed value is returned as valid. The six
  inputs of the specification give the six results it lists.
\<close>

theorem validate_number_spec:
  "(\<exists>pre post. txt = pre @ py_strip txt @ post \<and> list_all is_unicode_space pre \<and> list_all is_unicode_space post)
   \<and> (py_strip txt \<noteq> [] \<longrightarrow>
        \<not> is_unicode_space (hd (py_strip txt)) \<and> \<not> is_unicode_space (last (py_strip txt)))
   \<and> (list_all is_unicode_space txt \<longrightarrow> validate_number txt = Inl ''No input provided.'')
   \<and> (\<not> list_all is_unicode_space txt \<and> float_of_str (py_strip txt) = Inl e \<longrightarrow>
        validate_number txt = Inl ''Number is invalid or input was not a number.\<newline>Example: 500; 503.81\<newline>No Symbols.'')
   \<and> (\<not> list_all is_unicode_space txt \<and> float_of_str (py_strip txt) = Inr v \<and> fle v (Finite 0) \<longrightarrow>
        validate_number txt = Inl ''Value must be greater than 0.'')
   \<and> (\<not> list_all is_unicode_space txt \<and> float_of_str (py_strip txt) = Inr v \<and> \<not> fle v (Finite 0) \<longrightarrow>
        validate_number txt = Inr v)
   \<and> validate_number ''0'' = Inl ''Value must be greater than 0.''
   \<and> validate_number ''0.01'' = Inr (fl (1 / 100))
   \<and> validate_number [] = Inl ''No input provided.''
   \<and> validate_number ''-5'' = Inl ''Value must be greater than 0.''
   \<and> validate_number ''abc'' = Inl ''Number is invalid or input was not a number.\<newline>Example: 500; 503.81\<newline>No Symbols.''
   \<and> validate_number '' 500 '' = Inr (Finite 500)"
proof -
  have g: "\<exists>pre post. txt = pre @ py_strip txt @ post \<and> list_all is_unicode_space pre \<and> list_all is_unicode_space post"
    unfolding py_strip_def by (rule strip_with_decomp)
  have g2: "py_strip txt \<noteq> [] \<longrightarrow>
        \<not> is_unicode_space (hd (py_strip txt)) \<and> \<not> is_unicode_space (last (py_strip txt))"
    unfolding py_strip_def using strip_with_ends [of is_unicode_space "txt"] by blast
  have c1: "validate_number ''0'' = Inl ''Value must be greater than 0.''" by code_simp
  have c2: "validate_number ''0.01'' = Inr (fl (1 / 100))" by code_simp
  have c3: "validate_number [] = Inl ''No input provided.''" by code_simp
  have c4: "validate_number ''-5'' = Inl ''Value must be greater than 0.''" by code_simp
  have c5: "validate_number ''abc'' = Inl ''Number is invalid or input was not a number.\<newline>Example: 500; 503.81\<newline>No Symbols.''" by code_simp
  have c6: "validate_number '' 500 '' = Inr (Finite 500)" by code_simp
  show ?thesis
    using g g2 c1 c2 c3 c4 c5 c6
    by (simp add: validate_number_def py_strip_Nil_iff [symmetric] Let_def)
qed

text \<open>The hypotheses of the cases of C3 hold at \<^verbatim>\<open>" 500 "\<close> and at two spaces.\<close>

theorem validate_number_spec_witness:
  "\<not> list_all is_unicode_space '' 500 '' \<and> float_of_str (py_strip '' 500 '') = Inr (Finite 500)
   \<and> \<not> fle (Finite 500) (Finite 0) \<and> validate_number '' 500 '' = Inr (Finite 500)
   \<and> list_all is_unicode_space ''  '' \<and> validate_number ''  '' = Inl ''No input provided.''"
proof -
  have h1: "\<not> list_all is_unicode_space '' 500 ''" by code_simp
  have h2: "float_of_str (py_strip '' 500 '') = Inr (Finite 500)" by code_simp
  have h3: "\<not> fle (Finite 500) (Finite 0)" by simp
  have h4: "list_all is_unicode_space ''  ''" by code_simp
  have a: "validate_number '' 500 '' = Inr (Finite 500)"
    using validate_number_spec [of "'' 500 ''" ValueError "Finite 500"] h1 h2 h3 by blast
  have b: "validate_number ''  '' = Inl ''No input provided.''"
    using validate_number_spec [of "''  ''" ValueError "Finite 500"] h4 by blast
  show ?thesis using a b h1 h2 h3 h4 by blast
qed

text \<open>
  Claim C10. The validator accepts inputs that parse to a float that is no finite number:
  \<^verbatim>\<open>inf\<close> gives the positive infinity and \<^verbatim>\<open>nan\<close> a NaN, for which \<^verbatim>\<open>v <= 0\<close> is false.
  Both come back as valid, so the value handed to the store need not be finite.
\<close>

theorem validate_number_accepts_non_finite:
  "validate_number ''inf'' = Inr PInf \<and> validate_number ''nan'' = Inr NaN
   \<and> \<not> is_finite PInf \<and> \<not> is_finite NaN \<and> \<not> fle NaN (Finite 0)"
proof -
  have 1: "validate_number ''inf'' = Inr PInf" by code_simp
  have 2: "validate_number ''nan'' = Inr NaN" by code_simp
  show ?thesis using 1 2 by simp
qed

section \<open>Properties of the summary store\<close>

lemma backup_path_neq: "backup_path p \<noteq> p"
  by (cases p) (simp add: backup_path_def BACKUP_SUFFIX_def)

lemma DEFAULT_SUMMARY_totals:
  "(\<forall>c\<in>set INCOME_CATEGORIES. category_total DEFAULT_SUMMARY ''income'' c = Some (PyFloat (Finite 0)))
   \<and> (\<forall>c\<in>set EXPENSE_CATEGORIES. category_total DEFAULT_SUMMARY ''expenses'' c = Some (PyFloat (Finite 0)))"
  by (simp add: category_total_def DEFAULT_SUMMARY_def zeros_def INCOME_CATEGORIES_def
      EXPENSE_CATEGORIES_def)

text \<open>
  Claim C7. When no file exists at the summary path (and the file can be written),
  \<^verbatim>\<open>load_summary_data\<close> creates the file with the all-zero default document, shows the
  information dialog \<^verbatim>\<open>Summary File Created\<close> and no other, and returns a document in
  which every category of the registry, in both mappings, is \<^verbatim>\<open>0.0\<close>.
\<close>

theorem load_creates_default:
  assumes "files (summary_path cfg) = None" and "write_outcome io = Done"
  shows "load_summary_data cfg io files =
           (files(summary_path cfg \<mapsto> Doc DEFAULT_SUMMARY),
            [showinfo ''Summary File Created''
               (''Created '' @ [CHR 0x27] @ PROGRAM_FILENAME cfg @ ''_summary.json'' @ [CHR 0x27] @ ''.'')],
            Inr DEFAULT_SUMMARY)
         \<and> (\<forall>c\<in>set INCOME_CATEGORIES.
               category_total DEFAULT_SUMMARY ''income'' c = Some (PyFloat (Finite 0)))
         \<and> (\<forall>c\<in>set EXPENSE_CATEGORIES.
               category_total DEFAULT_SUMMARY ''expenses'' c = Some (PyFloat (Finite 0)))"
  using assms DEFAULT_SUMMARY_totals
  by (simp add: load_summary_data_def write_json_def SUMMARY_FILENAME_def Let_def)

text \<open>C7 at a program \<^verbatim>\<open>project\<close> in \<^verbatim>\<open>/app\<close>, with no file at all.\<close>

theorem load_creates_default_witness:
  "fst (load_summary_data \<lparr>PROGRAM_FILENAME = ''project'', program_dir = ''/app''\<rparr> no_faults (\<lambda>p. None))
     \<lparr>parent = ''/app'', name = ''project_summary.json''\<rparr> = Some (Doc DEFAULT_SUMMARY)
   \<and> snd (load_summary_data \<lparr>PROGRAM_FILENAME = ''project'', program_dir = ''/app''\<rparr> no_faults (\<lambda>p. None))
       = ([showinfo ''Summary File Created'' ''Created 'project_summary.json'.''], Inr DEFAULT_SUMMARY)
   \<and> category_total DEFAULT_SUMMARY ''income'' ''Salary'' = Some (PyFloat (Finite 0))
   \<and> category_total DEFAULT_SUMMARY ''expenses'' ''Other'' = Some (PyFloat (Finite 0))"
proof -
  let ?cfg = "\<lparr>PROGRAM_FILENAME = ''project'', program_dir = ''/app''\<rparr>"
  have h1: "(\<lambda>p. None :: content option) (summary_path ?cfg) = None" by simp
  have h2: "write_outcome no_faults = Done" by (simp add: no_faults_def)
  have p: "summary_path ?cfg = \<lparr>parent = ''/app'', name = ''project_summary.json''\<rparr>"
    by (simp add: summary_path_def SUMMARY_FILENAME_def)
  show ?thesis
    using load_creates_default [where files = "\<lambda>p. None" and cfg = "?cfg" and io = no_faults, OF h1 h2] p
    by (simp add: INCOME_CATEGORIES_def EXPENSE_CATEGORIES_def)
qed

text \<open>
  Claim C8, as amended. When the file exists, can be read and decoded, and \<^verbatim>\<open>json.load\<close>
  rejects its text with \<^verbatim>\<open>JSONDecodeError\<close>, \<^verbatim>\<open>load_summary_data\<close> deletes the file, writes
  the all-zero default in its place, shows the warning dialog \<^verbatim>\<open>Corrupted File Replaced\<close>
  (no error dialog, no exception) and returns the all-zero default. The deletion comes
  first: when the new file then cannot be opened, no file is left.
\<close>

theorem load_replaces_corrupted:
  assumes "files (summary_path cfg) = Some Garbage" and "\<not> read_fault io"
  shows "(\<not> unlink_fault io \<and> write_outcome io = Done \<longrightarrow>
            load_summary_data cfg io files =
              (files(summary_path cfg \<mapsto> Doc DEFAULT_SUMMARY),
               [showwarning ''Corrupted File Replaced''
                  ''Corrupted summary file replaced with a new blank file.''],
               Inr DEFAULT_SUMMARY))
         \<and> (\<not> unlink_fault io \<and> write_outcome io = OpenFailed \<longrightarrow>
              load_summary_data cfg io files = (files(summary_path cfg := None), [], Inl OSError))"
  using assms by (simp add: load_summary_data_def write_json_def Let_def)

text \<open>C8 at a program \<^verbatim>\<open>project\<close> in \<^verbatim>\<open>/app\<close> whose summary file is no JSON text.\<close>

theorem load_replaces_corrupted_witness:
  "fst (load_summary_data \<lparr>PROGRAM_FILENAME = ''project'', program_dir = ''/app''\<rparr> no_faults
          ((\<lambda>p. None)(\<lparr>parent = ''/app'', name = ''project_summary.json''\<rparr> \<mapsto> Garbage)))
     \<lparr>parent = ''/app'', name = ''project_summary.json''\<rparr> = Some (Doc DEFAULT_SUMMARY)
   \<and> snd (load_summary_data \<lparr>PROGRAM_FILENAME = ''project'', program_dir = ''/app''\<rparr> no_faults
          ((\<lambda>p. None)(\<lparr>parent = ''/app'', name = ''project_summary.json''\<rparr> \<mapsto> Garbage)))
       = ([showwarning ''Corrupted File Replaced''
             ''Corrupted summary file replaced with a new blank file.''], Inr DEFAULT_SUMMARY)
   \<and> fst (load_summary_data \<lparr>PROGRAM_FILENAME = ''project'', program_dir = ''/app''\<rparr>
            (no_faults\<lparr>write_outcome := OpenFailed\<rparr>)
          ((\<lambda>p. None)(\<lparr>parent = ''/app'', name = ''project_summary.json''\<rparr> \<mapsto> Garbage)))
     \<lparr>parent = ''/app'', name = ''project_summary.json''\<rparr> = None"
proof -
  let ?cfg = "\<lparr>PROGRAM_FILENAME = ''project'', program_dir = ''/app''\<rparr>"
  let ?p = "\<lparr>parent = ''/app'', name = ''project_summary.json''\<rparr>"
  let ?files = "(\<lambda>p. None)(?p \<mapsto> Garbage)"
  have p: "summary_path ?cfg = ?p"
    by (simp add: summary_path_def SUMMARY_FILENAME_def)
  have h1: "?files (summary_path ?cfg) = Some Garbage" by (simp add: p)
  have h2: "\<not> read_fault no_faults" by (simp add: no_faults_def)
  have h3: "\<not> read_fault (no_faults\<lparr>write_outcome := OpenFailed\<rparr>)" by (simp add: no_faults_def)
  show ?thesis
    using load_replaces_corrupted [where files = "?files" and cfg = "?cfg" and io = no_faults, OF h1 h2]
      load_replaces_corrupted [where files = "?files" and cfg = "?cfg"
        and io = "no_faults\<lparr>write_outcome := OpenFailed\<rparr>", OF h1 h3] p
    by (simp add: no_faults_def)
qed

text \<open>
  Claim C8, as stated, fails: a file whose bytes are no UTF-8 text is not parseable as a
  document either, but its read ends in the handler of the other exceptions. The error
  dialog \<^verbatim>\<open>File Error\<close> is shown, the default is returned, and the file is neither deleted
  nor replaced.
\<close>

theorem load_undecodable_not_replaced:
  "load_summary_data example_cfg (no_faults\<lparr>detail := ''invalid start byte''\<rparr>) (only_file Undecodable)
     = (only_file Undecodable,
        [showerror ''File Error'' ''Unable to read summary file:\<newline>invalid start byte''],
        Inr DEFAULT_SUMMARY)
   \<and> only_file Undecodable (summary_path example_cfg) = Some Undecodable"
  by (simp add: load_summary_data_def Let_def summary_path_def SUMMARY_FILENAME_def
      example_cfg_def example_path_def only_file_def no_faults_def)

lemma make_backup_primary: "make_backup cfg io files (summary_path cfg) = files (summary_path cfg)"
  using backup_path_neq [of "summary_path cfg"]
  by (cases "copy_outcome io") (auto simp: make_backup_def copyfile_def Let_def)

lemma save_result: "snd (snd (save_summary_data cfg io data files)) = (write_outcome io = Done)"
  by (cases "write_outcome io") (simp_all add: save_summary_data_def write_json_def Let_def)

text \<open>
  Claim C5. The backup path is the primary path with \<^verbatim>\<open>.backup\<close> appended to its name.
  \<^verbatim>\<open>save_summary_data\<close> first copies an existing primary file there (\<open>make_backup\<close>; no
  primary file, no copy), and goes on whatever the copy did: what it returns is decided by
  the write alone. When the write succeeds the primary file holds the document, the backup
  is deleted (it stays when the deletion fails), no dialog is shown and the result is
  \<^verbatim>\<open>True\<close>. When the write fails the error dialog \<^verbatim>\<open>Save Error\<close> names the backup file, the
  backup is left as the copy made it, and the result is \<^verbatim>\<open>False\<close>.
\<close>

theorem save_summary_data_spec:
  "name (backup_path (summary_path cfg)) = name (summary_path cfg) @ ''.backup''
   \<and> parent (backup_path (summary_path cfg)) = parent (summary_path cfg)
   \<and> (files (summary_path cfg) = Some c \<and> copy_outcome io = Done \<longrightarrow>
        make_backup cfg io files = files(backup_path (summary_path cfg) \<mapsto> c))
   \<and> (files (summary_path cfg) = None \<longrightarrow> make_backup cfg io files = files)
   \<and> snd (snd (save_summary_data cfg io data files)) = (write_outcome io = Done)
   \<and> (write_outcome io = Done \<longrightarrow>
        snd (save_summary_data cfg io data files) = ([], True)
        \<and> fst (save_summary_data cfg io data files) (summary_path cfg) = Some (Doc data)
        \<and> (\<not> backup_unlink_fault io \<longrightarrow>
             fst (save_summary_data cfg io data files) (backup_path (summary_path cfg)) = None)
        \<and> (backup_unlink_fault io \<longrightarrow>
             fst (save_summary_data cfg io data files) (backup_path (summary_path cfg))
               = make_backup cfg io files (backup_path (summary_path cfg))))
   \<and> (write_outcome io \<noteq> Done \<longrightarrow>
        snd (save_summary_data cfg io data files) =
          ([showerror ''Save Error''
              (''Could not save summary. Backup preserved as '' @ [CHR 0x27]
               @ PROGRAM_FILENAME cfg @ ''_summary.json.backup'' @ [CHR 0x27]
               @ ''.\<newline>Details: '' @ detail io)],
           False)
        \<and> fst (save_summary_data cfg io data files) (backup_path (summary_path cfg))
             = make_backup cfg io files (backup_path (summary_path cfg)))"
proof -
  let ?P = "summary_path cfg"
  let ?B = "backup_path ?P"
  have nb: "?B \<noteq> ?P" by (rule backup_path_neq)
  have n: "name ?B = name ?P @ ''.backup''" "parent ?B = parent ?P"
    by (simp_all add: backup_path_def BACKUP_SUFFIX_def)
  have nm: "name ?B = PROGRAM_FILENAME cfg @ ''_summary.json.backup''"
    by (simp add: backup_path_def BACKUP_SUFFIX_def summary_path_def SUMMARY_FILENAME_def)
  have b1: "files ?P = Some c \<and> copy_outcome io = Done \<longrightarrow> make_backup cfg io files = files(?B \<mapsto> c)"
    by (auto simp: make_backup_def copyfile_def Let_def)
  have b2: "files ?P = None \<longrightarrow> make_backup cfg io files = files"
    by (simp add: make_backup_def)
  have ok: "write_outcome io = Done \<longrightarrow>
        snd (save_summary_data cfg io data files) = ([], True)
        \<and> fst (save_summary_data cfg io data files) ?P = Some (Doc data)
        \<and> (\<not> backup_unlink_fault io \<longrightarrow> fst (save_summary_data cfg io data files) ?B = None)
        \<and> (backup_unlink_fault io \<longrightarrow>
             fst (save_summary_data cfg io data files) ?B = make_backup cfg io files ?B)"
    using nb by (auto simp: save_summary_data_def write_json_def drop_backup_def Let_def)
  have ko: "write_outcome io \<noteq> Done \<longrightarrow>
        snd (save_summary_data cfg io data files) =
          ([showerror ''Save Error''
              (''Could not save summary. Backup preserved as '' @ [CHR 0x27]
               @ PROGRAM_FILENAME cfg @ ''_summary.json.backup'' @ [CHR 0x27]
               @ ''.\<newline>Details: '' @ detail io)],
           False)
        \<and> fst (save_summary_data cfg io data files) ?B = make_backup cfg io files ?B"
    using nb nm by (cases "write_outcome io") (simp_all add: save_summary_data_def write_json_def Let_def)
  show ?thesis using n b1 b2 ok ko save_result [of cfg io data files] by blast
qed

text \<open>
  C5 at a program \<^verbatim>\<open>project\<close> in \<^verbatim>\<open>/app\<close> whose summary file holds the default document:
  a save that fails half-way, and one that succeeds although the backup cannot be deleted.
\<close>

theorem save_summary_data_spec_witness:
  "snd (save_summary_data \<lparr>PROGRAM_FILENAME = ''project'', program_dir = ''/app''\<rparr>
          (no_faults\<lparr>write_outcome := WriteFailed, detail := ''disk full''\<rparr>) (PyDict [])
          ((\<lambda>p. None)(\<lparr>parent = ''/app'', name = ''project_summary.json''\<rparr> \<mapsto> Doc DEFAULT_SUMMARY)))
     = ([showerror ''Save Error''
           ''Could not save summary. Backup preserved as 'project_summary.json.backup'.\<newline>Details: disk full''],
        False)
   \<and> fst (save_summary_data \<lparr>PROGRAM_FILENAME = ''project'', program_dir = ''/app''\<rparr>
          (no_faults\<lparr>write_outcome := WriteFailed, detail := ''disk full''\<rparr>) (PyDict [])
          ((\<lambda>p. None)(\<lparr>parent = ''/app'', name = ''project_summary.json''\<rparr> \<mapsto> Doc DEFAULT_SUMMARY)))
       \<lparr>parent = ''/app'', name = ''project_summary.json.backup''\<rparr> = Some (Doc DEFAULT_SUMMARY)
   \<and> snd (save_summary_data \<lparr>PROGRAM_FILENAME = ''project'', program_dir = ''/app''\<rparr>
          (no_faults\<lparr>backup_unlink_fault := True\<rparr>) (PyDict [])
          ((\<lambda>p. None)(\<lparr>parent = ''/app'', name = ''project_summary.json''\<rparr> \<mapsto> Doc DEFAULT_SUMMARY)))
     = ([], True)
   \<and> fst (save_summary_data \<lparr>PROGRAM_FILENAME = ''project'', program_dir = ''/app''\<rparr>
          (no_faults\<lparr>backup_unlink_fault := True\<rparr>) (PyDict [])
          ((\<lambda>p. None)(\<lparr>parent = ''/app'', name = ''project_summary.json''\<rparr> \<mapsto> Doc DEFAULT_SUMMARY)))
       \<lparr>parent = ''/app'', name = ''project_summary.json''\<rparr> = Some (Doc (PyDict []))"
proof -
  let ?cfg = "\<lparr>PROGRAM_FILENAME = ''project'', program_dir = ''/app''\<rparr>"
  let ?p = "\<lparr>parent = ''/app'', name = ''project_summary.json''\<rparr>"
  let ?files = "(\<lambda>p. None)(?p \<mapsto> Doc DEFAULT_SUMMARY)"
  let ?io1 = "no_faults\<lparr>write_outcome := WriteFailed, detail := ''disk full''\<rparr>"
  let ?io2 = "no_faults\<lparr>backup_unlink_fault := True\<rparr>"
  have p: "summary_path ?cfg = ?p"
    by (simp add: summary_path_def SUMMARY_FILENAME_def)
  have b: "backup_path ?p = \<lparr>parent = ''/app'', name = ''project_summary.json.backup''\<rparr>"
    by (simp add: backup_path_def BACKUP_SUFFIX_def)
  have h1: "?files (summary_path ?cfg) = Some (Doc DEFAULT_SUMMARY)" by (simp add: p)
  have h2: "copy_outcome ?io1 = Done" "write_outcome ?io1 \<noteq> Done" "detail ?io1 = ''disk full''"
    "write_outcome ?io2 = Done" "backup_unlink_fault ?io2"
    by (simp_all add: no_faults_def)
  show ?thesis
    using save_summary_data_spec [where cfg = "?cfg" and files = "?files" and io = "?io1"
        and c = "Doc DEFAULT_SUMMARY" and data = "PyDict []"]
      save_summary_data_spec [where cfg = "?cfg" and files = "?files" and io = "?io2"
        and c = "Doc DEFAULT_SUMMARY" and data = "PyDict []"]
      h1 h2 p b
    by simp
qed

section \<open>The repair of a loaded document\<close>

lemma repair_key_effect:
  "repair_key section (sec, reps, rp) cat = (sec', reps', rp') \<Longrightarrow>
     sec' = AList.update cat (PyFloat (fixed_total sec cat)) sec \<and> rp' = (rp \<or> key_broken sec cat)"
  by (auto simp: repair_key_def fixed_total_def key_broken_def split: option.splits sum.splits)

lemma fixed_total_update_other:
  "c \<noteq> cat \<Longrightarrow> fixed_total (AList.update cat v sec) c = fixed_total sec c"
  by (simp add: fixed_total_def update_conv')

lemma key_broken_update_other:
  "c \<noteq> cat \<Longrightarrow> key_broken (AList.update cat v sec) c = key_broken sec c"
  by (simp add: key_broken_def update_conv')

lemma foldl_repair_key:
  "distinct expected \<Longrightarrow>
   foldl (repair_key section) (sec, reps, rp) expected = (sec', reps', rp') \<Longrightarrow>
     (\<forall>c. map_of sec' c =
        (if c \<in> set expected then Some (PyFloat (fixed_total sec c)) else map_of sec c))
     \<and> rp' = (rp \<or> list_ex (key_broken sec) expected)"
proof (induction expected arbitrary: sec reps rp)
  case Nil
  then show ?case by simp
next
  case (Cons cat rest)
  obtain s1 r1 b1 where k: "repair_key section (sec, reps, rp) cat = (s1, r1, b1)"
    by (cases "repair_key section (sec, reps, rp) cat") auto
  from repair_key_effect [OF k]
  have s1: "s1 = AList.update cat (PyFloat (fixed_total sec cat)) sec"
    and b1: "b1 = (rp \<or> key_broken sec cat)" by simp_all
  from Cons.prems have d: "distinct rest" and nin: "cat \<notin> set rest" by simp_all
  from Cons.prems k have f: "foldl (repair_key section) (s1, r1, b1) rest = (sec', reps', rp')"
    by simp
  from Cons.IH [OF d f]
  have m: "\<forall>c. map_of sec' c = (if c \<in> set rest then Some (PyFloat (fixed_total s1 c)) else map_of s1 c)"
    and r: "rp' = (b1 \<or> list_ex (key_broken s1) rest)" by simp_all
  have same: "\<And>c. c \<in> set rest \<Longrightarrow> fixed_total s1 c = fixed_total sec c \<and> key_broken s1 c = key_broken sec c"
    using nin unfolding s1
    by (metis fixed_total_update_other key_broken_update_other)
  have "list_ex (key_broken s1) rest = list_ex (key_broken sec) rest"
    using same by (auto simp: list_ex_iff)
  with r b1 have rp: "rp' = (rp \<or> list_ex (key_broken sec) (cat # rest))" by auto
  have "\<forall>c. map_of sec' c =
        (if c \<in> set (cat # rest) then Some (PyFloat (fixed_total sec c)) else map_of sec c)"
    using m same by (auto simp: s1 update_conv')
  with rp show ?case by blast
qed

lemma foldl_repair_key_ok:
  "list_all (\<lambda>c. is_float (map_of sec c)) expected \<Longrightarrow>
     foldl (repair_key section) (sec, reps, rp) expected = (sec, reps, rp)"
proof (induction expected)
  case Nil
  then show ?case by simp
next
  case (Cons cat rest)
  from Cons.prems obtain x where x: "map_of sec cat = Some (PyFloat x)"
    by (auto simp: is_float_def split: option.splits pyval.splits)
  then have "repair_key section (sec, reps, rp) cat = (sec, reps, rp)"
    by (simp add: repair_key_def update_triv)
  with Cons show ?case by simp
qed

lemma map_of_zeros:
  "map_of (map (\<lambda>c. (c, v)) expected) c = (if c \<in> set expected then Some v else None)"
  by (induction expected) auto

lemma repair_section_effect:
  assumes "distinct expected"
    and "repair_section (data, reps, rp) (section, expected) = (data', reps', rp')"
  shows "\<exists>sec'. data' = AList.update section (PyDict sec') data
           \<and> (\<forall>c\<in>set expected. map_of sec' c = Some (PyFloat (repaired_total data section c)))
           \<and> rp' = (rp \<or> section_broken data section expected)"
proof (cases "\<exists>sec. map_of data section = Some (PyDict sec)")
  case True
  then obtain sec where sec: "map_of data section = Some (PyDict sec)" by blast
  obtain s1 r1 b1 where f: "foldl (repair_key section) (sec, reps, rp) expected = (s1, r1, b1)"
    by (cases "foldl (repair_key section) (sec, reps, rp) expected") auto
  from assms(2) sec f have d: "data' = AList.update section (PyDict s1) data" and b: "rp' = b1"
    by (simp_all add: repair_section_def)
  from foldl_repair_key [OF assms(1) f] sec b
  have "(\<forall>c\<in>set expected. map_of s1 c = Some (PyFloat (repaired_total data section c)))
        \<and> rp' = (rp \<or> section_broken data section expected)"
    by (simp add: repaired_total_def section_broken_def)
  with d show ?thesis by blast
next
  case False
  then have e: "repair_section (data, reps, rp) (section, expected) =
      (AList.update section (zeros expected) data,
       reps @ [''Added or replaced section '' @ [CHR 0x27] @ section @ [CHR 0x27] @ ''.''], True)"
    by (auto simp: repair_section_def split: option.splits pyval.splits)
  from False have t: "\<forall>c. repaired_total data section c = Finite 0"
    and sb: "section_broken data section expected"
    by (auto simp: repaired_total_def section_broken_def split: option.splits pyval.splits)
  let ?z = "map (\<lambda>c. (c, PyFloat (Finite 0))) expected"
  have "data' = AList.update section (PyDict ?z) data" and "rp'"
    using assms(2) e by (simp_all add: zeros_def)
  moreover have "\<forall>c\<in>set expected. map_of ?z c = Some (PyFloat (repaired_total data section c))"
    using t by (simp add: map_of_zeros)
  ultimately show ?thesis using sb by blast
qed

lemma repair_section_ok:
  "section_ok data section expected \<Longrightarrow>
     repair_section (data, reps, rp) (section, expected) = (data, reps, rp)"
  by (auto simp: section_ok_def repair_section_def foldl_repair_key_ok update_triv
      split: option.splits pyval.splits)

lemma section_ok_update:
  "\<forall>c\<in>set expected. \<exists>x. map_of sec c = Some (PyFloat x) \<Longrightarrow>
     section_ok (AList.update section (PyDict sec) data) section expected"
  by (auto simp: section_ok_def update_conv' list_all_iff is_float_def)

lemma section_ok_update_other:
  "k \<noteq> section \<Longrightarrow>
     section_ok (AList.update k v data) section expected = section_ok data section expected"
  by (simp add: section_ok_def update_conv')

lemma category_total_update:
  "category_total (PyDict (AList.update section (PyDict sec) data)) section c = map_of sec c"
  by (simp add: category_total_def update_conv')

lemma category_total_update_other:
  "k \<noteq> section \<Longrightarrow>
     category_total (PyDict (AList.update k v data)) section c = category_total (PyDict data) section c"
  by (simp add: category_total_def update_conv')

lemma distinct_registry: "distinct INCOME_CATEGORIES" "distinct EXPENSE_CATEGORIES"
  by (simp_all add: INCOME_CATEGORIES_def EXPENSE_CATEGORIES_def)

lemma repair_effect:
  assumes "repair (PyDict d) = Inr (d', reps, rp)"
  shows "(\<forall>c\<in>set INCOME_CATEGORIES.
            category_total (PyDict d') ''income'' c = Some (PyFloat (repaired_total d ''income'' c)))
       \<and> (\<forall>c\<in>set EXPENSE_CATEGORIES.
            category_total (PyDict d') ''expenses'' c = Some (PyFloat (repaired_total d ''expenses'' c)))
       \<and> rp = needs_repair d \<and> well_formed d'"
proof -
  obtain d1 r1 b1 where s1: "repair_section (d, [], False) (''income'', INCOME_CATEGORIES) = (d1, r1, b1)"
    by (cases "repair_section (d, [], False) (''income'', INCOME_CATEGORIES)") auto
  with assms have s2: "repair_section (d1, r1, b1) (''expenses'', EXPENSE_CATEGORIES) = (d', reps, rp)"
    by (simp add: repair_def)
  from repair_section_effect [OF distinct_registry(1) s1] obtain si where
    d1: "d1 = AList.update ''income'' (PyDict si) d"
    and si: "\<forall>c\<in>set INCOME_CATEGORIES. map_of si c = Some (PyFloat (repaired_total d ''income'' c))"
    and b1: "b1 = section_broken d ''income'' INCOME_CATEGORIES" by auto
  from repair_section_effect [OF distinct_registry(2) s2] obtain se where
    d': "d' = AList.update ''expenses'' (PyDict se) d1"
    and se: "\<forall>c\<in>set EXPENSE_CATEGORIES. map_of se c = Some (PyFloat (repaired_total d1 ''expenses'' c))"
    and rp: "rp = (b1 \<or> section_broken d1 ''expenses'' EXPENSE_CATEGORIES)" by auto
  have same: "repaired_total d1 ''expenses'' = repaired_total d ''expenses''"
    "section_broken d1 ''expenses'' EXPENSE_CATEGORIES = section_broken d ''expenses'' EXPENSE_CATEGORIES"
    by (simp_all add: d1 repaired_total_def section_broken_def update_conv' fun_eq_iff)
  have inc: "\<forall>c\<in>set INCOME_CATEGORIES.
      category_total (PyDict d') ''income'' c = Some (PyFloat (repaired_total d ''income'' c))"
    using si by (simp add: d' d1 category_total_update category_total_update_other)
  have exp: "\<forall>c\<in>set EXPENSE_CATEGORIES.
      category_total (PyDict d') ''expenses'' c = Some (PyFloat (repaired_total d ''expenses'' c))"
    using se same by (simp add: d' category_total_update)
  have "section_ok d1 ''income'' INCOME_CATEGORIES"
    unfolding d1 using si by (intro section_ok_update) auto
  then have w1: "section_ok d' ''income'' INCOME_CATEGORIES"
    by (simp add: d' section_ok_update_other)
  have w2: "section_ok d' ''expenses'' EXPENSE_CATEGORIES"
    unfolding d' using se by (intro section_ok_update) auto
  show ?thesis
    using inc exp rp b1 same w1 w2 by (simp add: needs_repair_def well_formed_def)
qed

lemma repair_well_formed: "well_formed d \<Longrightarrow> repair (PyDict d) = Inr (d, [], False)"
  by (simp add: well_formed_def repair_def repair_section_ok)

lemma repair_total: "\<exists>d' reps rp. repair (PyDict d) = Inr (d', reps, rp)"
  by (cases "foldl repair_section (d, [], False)
       [(''income'', INCOME_CATEGORIES), (''expenses'', EXPENSE_CATEGORIES)]")
     (simp add: repair_def)

section \<open>Loading a parsed document\<close>

lemma load_doc:
  assumes "files (summary_path cfg) = Some (Doc (PyDict d))" and "\<not> read_fault io"
    and "repair (PyDict d) = Inr (d', reps, rp)"
  shows "load_summary_data cfg io files =
           (if rp then
              (case write_outcome io of
                 Done \<Rightarrow>
                   (files(summary_path cfg \<mapsto> Doc (PyDict d')),
                    [showinfo ''Repairs Made'' (join ''\<newline>'' reps)], Inr (PyDict d'))
               | OpenFailed \<Rightarrow> (files, [], Inl OSError)
               | WriteFailed \<Rightarrow> (files(summary_path cfg \<mapsto> Garbage), [], Inl OSError))
            else (files, [], Inr (PyDict d')))"
  using assms
  by (cases "write_outcome io") (simp_all add: load_summary_data_def write_json_def Let_def)

lemma load_well_formed:
  assumes "files (summary_path cfg) = Some (Doc (PyDict d))" and "\<not> read_fault io"
    and "well_formed d"
  shows "load_summary_data cfg io files = (files, [], Inr (PyDict d))"
  using load_doc [of files cfg d io d "[]" False, OF assms(1,2) repair_well_formed [OF assms(3)]] by simp

lemma load_non_dict:
  assumes "files (summary_path cfg) = Some (Doc v)" and "\<not> read_fault io"
    and "\<forall>d. v \<noteq> PyDict d"
  shows "load_summary_data cfg io files = (files, [], Inl TypeError)"
  using assms by (cases v) (simp_all add: load_summary_data_def repair_def Let_def)

lemma repaired_total_finite:
  "is_finite (repaired_total d section c)
   \<or> (\<exists>sec. map_of d section = Some (PyDict sec)
         \<and> ((\<exists>x. map_of sec c = Some (PyFloat x) \<and> \<not> is_finite x)
             \<or> (\<exists>s. map_of sec c = Some (PyStr s))))"
proof (cases "\<exists>sec. map_of d section = Some (PyDict sec)")
  case False
  then show ?thesis
    by (auto simp: repaired_total_def split: option.splits pyval.splits)
next
  case True
  then obtain sec where sec: "map_of d section = Some (PyDict sec)" by blast
  show ?thesis
  proof (cases "map_of sec c")
    case None
    with sec show ?thesis by (simp add: repaired_total_def fixed_total_def)
  next
    case (Some v)
    with sec show ?thesis
      by (cases v)
         (auto simp: repaired_total_def fixed_total_def float_of_int_def
             split: sum.splits pyfloat.splits)
  qed
qed

lemma repaired_total_broken:
  "map_of d section = Some (PyDict sec) \<Longrightarrow> key_broken sec c \<Longrightarrow> repaired_total d section c = Finite 0"
  by (auto simp: repaired_total_def fixed_total_def key_broken_def split: option.splits sum.splits)

text \<open>
  Claim C1, as amended. For a file that \<^verbatim>\<open>json.load\<close> parses to a dict (and that can be
  written back), \<^verbatim>\<open>load_summary_data\<close> returns a document in which every category of the
  registry is a float: \<^verbatim>\<open>0.0\<close> where the section or the key was missing or the value was
  not convertible, \<^verbatim>\<open>float(value)\<close> otherwise. That float is finite unless the stored value
  is itself a float that is not, or a string. When a section, a key or a convertible value
  was missing, the returned document is written to the file and the dialog
  \<^verbatim>\<open>Repairs Made\<close> is shown; otherwise the file is left as it is.
\<close>

theorem load_repairs:
  assumes "files (summary_path cfg) = Some (Doc (PyDict d))" and "\<not> read_fault io"
    and "write_outcome io = Done"
  shows "\<exists>d' sigs files'.
           load_summary_data cfg io files = (files', sigs, Inr (PyDict d'))
           \<and> (\<forall>c\<in>set INCOME_CATEGORIES.
                 category_total (PyDict d') ''income'' c = Some (PyFloat (repaired_total d ''income'' c)))
           \<and> (\<forall>c\<in>set EXPENSE_CATEGORIES.
                 category_total (PyDict d') ''expenses'' c = Some (PyFloat (repaired_total d ''expenses'' c)))
           \<and> (\<forall>section c sec. map_of d section = Some (PyDict sec) \<and> key_broken sec c \<longrightarrow>
                 repaired_total d section c = Finite 0)
           \<and> (\<forall>section c. (\<forall>sec. map_of d section \<noteq> Some (PyDict sec)) \<longrightarrow>
                 repaired_total d section c = Finite 0)
           \<and> (\<forall>section c. is_finite (repaired_total d section c)
                 \<or> (\<exists>sec. map_of d section = Some (PyDict sec)
                       \<and> ((\<exists>x. map_of sec c = Some (PyFloat x) \<and> \<not> is_finite x)
                           \<or> (\<exists>s. map_of sec c = Some (PyStr s)))))
           \<and> (needs_repair d \<longrightarrow>
                 files' = files(summary_path cfg \<mapsto> Doc (PyDict d'))
                 \<and> (\<exists>msg. sigs = [showinfo ''Repairs Made'' msg]))
           \<and> (\<not> needs_repair d \<longrightarrow> files' = files \<and> sigs = [])"
proof -
  obtain d' reps rp where r: "repair (PyDict d) = Inr (d', reps, rp)"
    using repair_total by blast
  note e = repair_effect [OF r]
  have l: "load_summary_data cfg io files =
      (if rp then (files(summary_path cfg \<mapsto> Doc (PyDict d')),
                   [showinfo ''Repairs Made'' (join ''\<newline>'' reps)], Inr (PyDict d'))
       else (files, [], Inr (PyDict d')))"
    using load_doc [of files cfg d io d' reps rp, OF assms(1,2) r] assms(3) by simp
  have z: "\<forall>section c. (\<forall>sec. map_of d section \<noteq> Some (PyDict sec)) \<longrightarrow>
                 repaired_total d section c = Finite 0"
    by (auto simp: repaired_total_def split: option.splits pyval.splits)
  show ?thesis
  proof (cases rp)
    case True
    with l e z show ?thesis
      using repaired_total_finite repaired_total_broken by (intro exI) (simp, blast)
  next
    case False
    with l e z show ?thesis
      using repaired_total_finite repaired_total_broken by (intro exI) (simp, blast)
  qed
qed

text \<open>
  C1 at a program \<^verbatim>\<open>project\<close> in \<^verbatim>\<open>/app\<close> whose file has an income section without
  \<^verbatim>\<open>Gift\<close> and no expenses section.
\<close>

theorem load_repairs_witness:
  "\<exists>d'. snd (snd (load_summary_data \<lparr>PROGRAM_FILENAME = ''project'', program_dir = ''/app''\<rparr> no_faults
             ((\<lambda>p. None)(\<lparr>parent = ''/app'', name = ''project_summary.json''\<rparr> \<mapsto>
                Doc (PyDict [(''income'', PyDict [(''Salary'', PyInt 5), (''Investment'', PyStr ''x''),
                                                 (''Other'', PyFloat (Finite 2))])])))))
           = Inr (PyDict d')
         \<and> fst (load_summary_data \<lparr>PROGRAM_FILENAME = ''project'', program_dir = ''/app''\<rparr> no_faults
             ((\<lambda>p. None)(\<lparr>parent = ''/app'', name = ''project_summary.json''\<rparr> \<mapsto>
                Doc (PyDict [(''income'', PyDict [(''Salary'', PyInt 5), (''Investment'', PyStr ''x''),
                                                 (''Other'', PyFloat (Finite 2))])]))))
             \<lparr>parent = ''/app'', name = ''project_summary.json''\<rparr> = Some (Doc (PyDict d'))
         \<and> category_total (PyDict d') ''income'' ''Salary'' = Some (PyFloat (Finite 5))
         \<and> category_total (PyDict d') ''income'' ''Gift'' = Some (PyFloat (Finite 0))
         \<and> category_total (PyDict d') ''income'' ''Investment'' = Some (PyFloat (Finite 0))
         \<and> category_total (PyDict d') ''income'' ''Other'' = Some (PyFloat (Finite 2))
         \<and> category_total (PyDict d') ''expenses'' ''Food'' = Some (PyFloat (Finite 0))"
proof -
  let ?cfg = "\<lparr>PROGRAM_FILENAME = ''project'', program_dir = ''/app''\<rparr>"
  let ?p = "\<lparr>parent = ''/app'', name = ''project_summary.json''\<rparr>"
  let ?d = "[(''income'', PyDict [(''Salary'', PyInt 5), (''Investment'', PyStr ''x''),
                                  (''Other'', PyFloat (Finite 2))])]"
  let ?files = "(\<lambda>p. None)(?p \<mapsto> Doc (PyDict ?d))"
  have p: "summary_path ?cfg = ?p"
    by (simp add: summary_path_def SUMMARY_FILENAME_def)
  have h1: "?files (summary_path ?cfg) = Some (Doc (PyDict ?d))" by (simp add: p)
  have h2: "\<not> read_fault no_faults" "write_outcome no_faults = Done" by (simp_all add: no_faults_def)
  have n: "needs_repair ?d" by (simp add: needs_repair_def section_broken_def)
  have five: "fl 5 = Finite 5" "float_of_str ''x'' = Inl ValueError" by code_simp+
  have t: "repaired_total ?d ''income'' ''Salary'' = Finite 5"
    "repaired_total ?d ''income'' ''Gift'' = Finite 0"
    "repaired_total ?d ''income'' ''Investment'' = Finite 0"
    "repaired_total ?d ''income'' ''Other'' = Finite 2"
    "repaired_total ?d ''expenses'' ''Food'' = Finite 0"
    using five by (simp_all add: repaired_total_def fixed_total_def float_of_int_def)
  have m: "''Salary'' \<in> set INCOME_CATEGORIES" "''Gift'' \<in> set INCOME_CATEGORIES"
    "''Investment'' \<in> set INCOME_CATEGORIES" "''Other'' \<in> set INCOME_CATEGORIES"
    "''Food'' \<in> set EXPENSE_CATEGORIES"
    by (simp_all add: INCOME_CATEGORIES_def EXPENSE_CATEGORIES_def)
  from load_repairs [of ?files ?cfg ?d no_faults, OF h1 h2]
  obtain d' sigs files' where
    l: "load_summary_data ?cfg no_faults ?files = (files', sigs, Inr (PyDict d'))"
    and i: "\<forall>c\<in>set INCOME_CATEGORIES.
              category_total (PyDict d') ''income'' c = Some (PyFloat (repaired_total ?d ''income'' c))"
    and e: "\<forall>c\<in>set EXPENSE_CATEGORIES.
              category_total (PyDict d') ''expenses'' c = Some (PyFloat (repaired_total ?d ''expenses'' c))"
    and w: "needs_repair ?d \<longrightarrow> files' = ?files(summary_path ?cfg \<mapsto> Doc (PyDict d'))"
    by blast
  from w n p have "files' ?p = Some (Doc (PyDict d'))" by simp
  with l i e m t show ?thesis by (intro exI [of _ d']) simp
qed

text \<open>
  Claim C1, as stated, fails: a file with \<^verbatim>\<open>"Salary": "inf"\<close> and no expenses section is
  repaired and loaded with an infinite total for \<^verbatim>\<open>Salary\<close>.
\<close>

theorem load_repairs_not_finite:
  "snd (snd (load_summary_data \<lparr>PROGRAM_FILENAME = ''project'', program_dir = ''/app''\<rparr> no_faults
          ((\<lambda>p. None)(\<lparr>parent = ''/app'', name = ''project_summary.json''\<rparr> \<mapsto>
             Doc (PyDict [(''income'', PyDict [(''Salary'', PyStr ''inf''), (''Gift'', PyFloat (Finite 0)),
                            (''Investment'', PyFloat (Finite 0)), (''Other'', PyFloat (Finite 0))])])))))
     = Inr (PyDict [(''income'', PyDict [(''Salary'', PyFloat PInf), (''Gift'', PyFloat (Finite 0)),
                            (''Investment'', PyFloat (Finite 0)), (''Other'', PyFloat (Finite 0))]),
                    (''expenses'', PyDict [(''Food'', PyFloat (Finite 0)), (''Housing'', PyFloat (Finite 0)),
                            (''Transportation'', PyFloat (Finite 0)), (''Entertainment'', PyFloat (Finite 0)),
                            (''Health'', PyFloat (Finite 0)), (''Education'', PyFloat (Finite 0)),
                            (''Other'', PyFloat (Finite 0))])])
   \<and> \<not> is_finite PInf
   \<and> needs_repair [(''income'', PyDict [(''Salary'', PyStr ''inf''), (''Gift'', PyFloat (Finite 0)),
                            (''Investment'', PyFloat (Finite 0)), (''Other'', PyFloat (Finite 0))])]"
  by code_simp

section \<open>Load after save\<close>

lemma DEFAULT_well_formed: "\<exists>d. DEFAULT_SUMMARY = PyDict d \<and> well_formed d"
  by (simp add: DEFAULT_SUMMARY_def well_formed_def section_ok_def zeros_def is_float_def
      INCOME_CATEGORIES_def EXPENSE_CATEGORIES_def)

lemma load_result_well_formed:
  assumes "load_summary_data cfg io files = (files', sigs, Inr v)"
  shows "\<exists>d. v = PyDict d \<and> well_formed d"
proof (cases "files (summary_path cfg)")
  case None
  with assms have "v = DEFAULT_SUMMARY"
    by (cases "write_outcome io") (auto simp: load_summary_data_def write_json_def Let_def)
  then show ?thesis using DEFAULT_well_formed by simp
next
  case (Some c)
  show ?thesis
  proof (cases "read_fault io")
    case True
    with Some assms have "v = DEFAULT_SUMMARY" by (simp add: load_summary_data_def Let_def)
    then show ?thesis using DEFAULT_well_formed by simp
  next
    case False
    show ?thesis
    proof (cases c)
      case Undecodable
      with Some False assms have "v = DEFAULT_SUMMARY"
        by (simp add: load_summary_data_def Let_def)
      then show ?thesis using DEFAULT_well_formed by simp
    next
      case Garbage
      with Some False assms have "v = DEFAULT_SUMMARY"
        by (cases "write_outcome io")
           (auto simp: load_summary_data_def write_json_def Let_def split: if_splits)
      then show ?thesis using DEFAULT_well_formed by simp
    next
      case (Doc w)
      show ?thesis
      proof (cases "\<exists>d. w = PyDict d")
        case True
        then obtain d where w: "w = PyDict d" by blast
        obtain d' reps rp where r: "repair (PyDict d) = Inr (d', reps, rp)"
          using repair_total by blast
        from Some Doc w have f: "files (summary_path cfg) = Some (Doc (PyDict d))" by simp
        from load_doc [of files cfg d io d' reps rp, OF f False r] assms
        have "v = PyDict d'"
          by (cases "write_outcome io") (auto split: if_splits)
        with repair_effect [OF r] show ?thesis by simp
      next
        case False
        then have "\<forall>d. w \<noteq> PyDict d" by blast
        from load_non_dict [of files cfg w io] Some Doc \<open>\<not> read_fault io\<close> this assms
        show ?thesis by simp
      qed
    qed
  qed
qed

lemma load_depends_on_primary:
  assumes "f (summary_path cfg) = g (summary_path cfg)"
  shows "snd (load_summary_data cfg io f) = snd (load_summary_data cfg io g)
         \<and> fst (load_summary_data cfg io f) (summary_path cfg)
             = fst (load_summary_data cfg io g) (summary_path cfg)"
  using assms
  by (auto simp: load_summary_data_def write_json_def Let_def
      split: option.splits content.splits outcome.splits sum.splits prod.splits)

lemma save_ok:
  "write_outcome io = Done \<Longrightarrow>
     save_summary_data cfg io data files =
       (drop_backup cfg io ((make_backup cfg io files)(summary_path cfg \<mapsto> Doc data)), [], True)"
  by (simp add: save_summary_data_def write_json_def Let_def)

lemma save_ok_primary:
  "write_outcome io = Done \<Longrightarrow>
     fst (save_summary_data cfg io data files) (summary_path cfg) = Some (Doc data)"
  using backup_path_neq [of "summary_path cfg"]
  by (auto simp: save_ok drop_backup_def Let_def)

lemma save_failed:
  "write_outcome io \<noteq> Done \<Longrightarrow>
     fst (save_summary_data cfg io data files) =
       (if write_outcome io = OpenFailed then make_backup cfg io files
        else (make_backup cfg io files)(summary_path cfg \<mapsto> Garbage))"
  by (cases "write_outcome io") (simp_all add: save_summary_data_def write_json_def Let_def)

lemma on_exit_no_faults:
  assumes "load_summary_data cfg no_faults files = (f, s, Inr v)"
  shows "fst (on_exit cfg no_faults no_faults files) (summary_path cfg) = Some (Doc v)"
proof -
  have d: "write_outcome no_faults = Done" by (simp add: no_faults_def)
  have "fst (on_exit cfg no_faults no_faults files) = fst (save_summary_data cfg no_faults v f)"
    using assms by (simp add: on_exit_def split: prod.splits)
  then show ?thesis using save_ok_primary [OF d] by simp
qed

lemma load_saved:
  assumes "files (summary_path cfg) = Some (Doc v)" and "v = PyDict d" and "well_formed d"
  shows "load_summary_data cfg no_faults files = (files, [], Inr v)"
proof -
  have "\<not> read_fault no_faults" by (simp add: no_faults_def)
  with load_well_formed [of files cfg d no_faults] assms show ?thesis by simp
qed

text \<open>
  Claim C9. \<^verbatim>\<open>save_summary_data(load_summary_data())\<close>, which is what \<^verbatim>\<open>_on_exit\<close> runs, is run
  twice with no fault and no change in between. After the first run and after the second
  the file holds the document the first load returned, and a later load returns that
  document again, with no repair. Where the original file is a document with every category
  of the registry a float, that document is the original one; for any original dict its
  category totals are the original ones, converted by \<^verbatim>\<open>float\<close>.
\<close>

theorem save_load_idempotent:
  assumes "load_summary_data cfg no_faults files = (f, s, Inr v)"
  shows "fst (on_exit cfg no_faults no_faults files) (summary_path cfg) = Some (Doc v)
       \<and> fst (on_exit cfg no_faults no_faults (fst (on_exit cfg no_faults no_faults files)))
           (summary_path cfg) = Some (Doc v)
       \<and> snd (load_summary_data cfg no_faults
                (fst (on_exit cfg no_faults no_faults (fst (on_exit cfg no_faults no_faults files)))))
           = ([], Inr v)
       \<and> (\<forall>d. files (summary_path cfg) = Some (Doc (PyDict d)) \<and> well_formed d \<longrightarrow> v = PyDict d)
       \<and> (\<forall>d. files (summary_path cfg) = Some (Doc (PyDict d)) \<longrightarrow>
             (\<forall>c\<in>set INCOME_CATEGORIES.
                category_total v ''income'' c = Some (PyFloat (repaired_total d ''income'' c)))
             \<and> (\<forall>c\<in>set EXPENSE_CATEGORIES.
                category_total v ''expenses'' c = Some (PyFloat (repaired_total d ''expenses'' c))))"
proof -
  let ?P = "summary_path cfg"
  let ?g = "fst (on_exit cfg no_faults no_faults files)"
  let ?h = "fst (on_exit cfg no_faults no_faults ?g)"
  obtain d' where v: "v = PyDict d'" and wf: "well_formed d'"
    using load_result_well_formed [of cfg no_faults files f s v, OF assms] by blast
  have nr: "\<not> read_fault no_faults" by (simp add: no_faults_def)
  have g: "?g ?P = Some (Doc v)" using on_exit_no_faults [of cfg files f s v, OF assms] .
  have lg: "load_summary_data cfg no_faults ?g = (?g, [], Inr v)"
    using load_saved [of "?g" cfg v d', OF g v wf] .
  have h: "?h ?P = Some (Doc v)" using on_exit_no_faults [of cfg "?g" "?g" "[]" v, OF lg] .
  have lh: "load_summary_data cfg no_faults ?h = (?h, [], Inr v)"
    using load_saved [of "?h" cfg v d', OF h v wf] .
  have orig: "\<forall>d. files ?P = Some (Doc (PyDict d)) \<and> well_formed d \<longrightarrow> v = PyDict d"
  proof (intro allI impI)
    fix d assume a: "files ?P = Some (Doc (PyDict d)) \<and> well_formed d"
    then have "load_summary_data cfg no_faults files = (files, [], Inr (PyDict d))"
      using load_well_formed [of files cfg d no_faults] nr by simp
    with assms show "v = PyDict d" by simp
  qed
  have tot: "\<forall>d. files ?P = Some (Doc (PyDict d)) \<longrightarrow>
             (\<forall>c\<in>set INCOME_CATEGORIES.
                category_total v ''income'' c = Some (PyFloat (repaired_total d ''income'' c)))
             \<and> (\<forall>c\<in>set EXPENSE_CATEGORIES.
                category_total v ''expenses'' c = Some (PyFloat (repaired_total d ''expenses'' c)))"
  proof (intro allI impI)
    fix d assume a: "files ?P = Some (Doc (PyDict d))"
    obtain d2 reps rp where r: "repair (PyDict d) = Inr (d2, reps, rp)"
      using repair_total by blast
    from load_doc [of files cfg d no_faults d2 reps rp, OF a nr r] assms
    have "v = PyDict d2" by (auto simp: no_faults_def split: if_splits)
    with repair_effect [OF r]
    show "(\<forall>c\<in>set INCOME_CATEGORIES.
                category_total v ''income'' c = Some (PyFloat (repaired_total d ''income'' c)))
             \<and> (\<forall>c\<in>set EXPENSE_CATEGORIES.
                category_total v ''expenses'' c = Some (PyFloat (repaired_total d ''expenses'' c)))"
      by simp
  qed
  show ?thesis using g h lh orig tot by simp
qed

text \<open>C9 at a program \<^verbatim>\<open>project\<close> in \<^verbatim>\<open>/app\<close> whose file holds a salary of 100.\<close>

theorem save_load_idempotent_witness:
  "fst (on_exit \<lparr>PROGRAM_FILENAME = ''project'', program_dir = ''/app''\<rparr> no_faults no_faults
         (fst (on_exit \<lparr>PROGRAM_FILENAME = ''project'', program_dir = ''/app''\<rparr> no_faults no_faults
            ((\<lambda>p. None)(\<lparr>parent = ''/app'', name = ''project_summary.json''\<rparr> \<mapsto>
               Doc (PyDict [(''income'', PyDict [(''Salary'', PyFloat (Finite 100)), (''Gift'', PyFloat (Finite 0)),
                              (''Investment'', PyFloat (Finite 0)), (''Other'', PyFloat (Finite 0))]),
                            (''expenses'', zeros EXPENSE_CATEGORIES)]))))))
     \<lparr>parent = ''/app'', name = ''project_summary.json''\<rparr>
   = Some (Doc (PyDict [(''income'', PyDict [(''Salary'', PyFloat (Finite 100)), (''Gift'', PyFloat (Finite 0)),
                              (''Investment'', PyFloat (Finite 0)), (''Other'', PyFloat (Finite 0))]),
                        (''expenses'', zeros EXPENSE_CATEGORIES)]))"
proof -
  let ?cfg = "\<lparr>PROGRAM_FILENAME = ''project'', program_dir = ''/app''\<rparr>"
  let ?p = "\<lparr>parent = ''/app'', name = ''project_summary.json''\<rparr>"
  let ?d = "[(''income'', PyDict [(''Salary'', PyFloat (Finite 100)), (''Gift'', PyFloat (Finite 0)),
                              (''Investment'', PyFloat (Finite 0)), (''Other'', PyFloat (Finite 0))]),
             (''expenses'', zeros EXPENSE_CATEGORIES)]"
  let ?files = "(\<lambda>p. None)(?p \<mapsto> Doc (PyDict ?d))"
  have p: "summary_path ?cfg = ?p"
    by (simp add: summary_path_def SUMMARY_FILENAME_def)
  have w: "well_formed ?d"
    by (simp add: well_formed_def section_ok_def zeros_def is_float_def
        INCOME_CATEGORIES_def EXPENSE_CATEGORIES_def)
  have h: "load_summary_data ?cfg no_faults ?files = (?files, [], Inr (PyDict ?d))"
    using load_well_formed [of ?files ?cfg ?d no_faults] w p by (simp add: no_faults_def)
  show ?thesis
    using save_load_idempotent [of ?cfg ?files ?files "[]" "PyDict ?d", OF h] p by simp
qed

section \<open>Load after a failed save\<close>

text \<open>
  Claim C6, as amended. When \<^verbatim>\<open>save_summary_data\<close> reports failure, the files it leaves do
  not depend on the document that was to be saved, and so neither does anything a later
  \<^verbatim>\<open>load_summary_data\<close> does. When the file could not be opened for writing, the primary
  file is as before and the load returns what it would have returned before. When the
  write failed after the file was emptied, the primary file is unparseable and the load
  (its own deletion and write succeeding) returns the all-zero default.
\<close>

theorem failed_save_hides_mutation:
  assumes "snd (snd (save_summary_data cfg io data files)) = False"
  shows "fst (save_summary_data cfg io data files) = fst (save_summary_data cfg io data' files)
       \<and> load_summary_data cfg io' (fst (save_summary_data cfg io data files))
           = load_summary_data cfg io' (fst (save_summary_data cfg io data' files))
       \<and> (write_outcome io = OpenFailed \<longrightarrow>
             fst (save_summary_data cfg io data files) (summary_path cfg) = files (summary_path cfg)
             \<and> snd (load_summary_data cfg io' (fst (save_summary_data cfg io data files)))
                 = snd (load_summary_data cfg io' files))
       \<and> (write_outcome io = WriteFailed \<longrightarrow>
             fst (save_summary_data cfg io data files) (summary_path cfg) = Some Garbage
             \<and> (\<not> read_fault io' \<and> \<not> unlink_fault io' \<and> write_outcome io' = Done \<longrightarrow>
                  snd (load_summary_data cfg io' (fst (save_summary_data cfg io data files)))
                    = ([showwarning ''Corrupted File Replaced''
                          ''Corrupted summary file replaced with a new blank file.''],
                       Inr DEFAULT_SUMMARY)))"
proof -
  let ?P = "summary_path cfg"
  let ?s = "fst (save_summary_data cfg io data files)"
  from assms have nd: "write_outcome io \<noteq> Done" by (simp add: save_result)
  have eq: "?s = fst (save_summary_data cfg io data' files)"
    using save_failed [OF nd] by simp
  have o: "write_outcome io = OpenFailed \<longrightarrow>
             ?s ?P = files ?P \<and> snd (load_summary_data cfg io' ?s) = snd (load_summary_data cfg io' files)"
  proof
    assume a: "write_outcome io = OpenFailed"
    then have "?s = make_backup cfg io files" using save_failed [OF nd, of cfg data files] by simp
    then have 1: "?s ?P = files ?P" by (simp add: make_backup_primary)
    with load_depends_on_primary [of "?s" cfg files io']
    show "?s ?P = files ?P \<and> snd (load_summary_data cfg io' ?s) = snd (load_summary_data cfg io' files)"
      by simp
  qed
  have w: "write_outcome io = WriteFailed \<longrightarrow>
             ?s ?P = Some Garbage
             \<and> (\<not> read_fault io' \<and> \<not> unlink_fault io' \<and> write_outcome io' = Done \<longrightarrow>
                  snd (load_summary_data cfg io' ?s)
                    = ([showwarning ''Corrupted File Replaced''
                          ''Corrupted summary file replaced with a new blank file.''],
                       Inr DEFAULT_SUMMARY))"
  proof
    assume a: "write_outcome io = WriteFailed"
    then have "?s = (make_backup cfg io files)(?P \<mapsto> Garbage)"
      using save_failed [OF nd, of cfg data files] by simp
    then have 1: "?s ?P = Some Garbage" by simp
    then show "?s ?P = Some Garbage
             \<and> (\<not> read_fault io' \<and> \<not> unlink_fault io' \<and> write_outcome io' = Done \<longrightarrow>
                  snd (load_summary_data cfg io' ?s)
                    = ([showwarning ''Corrupted File Replaced''
                          ''Corrupted summary file replaced with a new blank file.''],
                       Inr DEFAULT_SUMMARY))"
      by (simp add: load_summary_data_def write_json_def Let_def)
  qed
  show ?thesis using eq o w by simp
qed

lemma example_summary_path: "summary_path example_cfg = example_path"
  by (simp add: summary_path_def SUMMARY_FILENAME_def example_cfg_def example_path_def)

lemma salary_doc_zero: "salary_doc 0 = DEFAULT_SUMMARY"
  by (simp add: salary_doc_def DEFAULT_SUMMARY_def zeros_def INCOME_CATEGORIES_def
      EXPENSE_CATEGORIES_def)

lemma salary_doc_well_formed: "\<exists>d. salary_doc x = PyDict d \<and> well_formed d"
  by (simp add: salary_doc_def well_formed_def section_ok_def is_float_def
      INCOME_CATEGORIES_def EXPENSE_CATEGORIES_def)

lemma load_salary_doc:
  "load_summary_data example_cfg no_faults (only_file (Doc (salary_doc x)))
     = (only_file (Doc (salary_doc x)), [], Inr (salary_doc x))"
proof -
  obtain d where d: "salary_doc x = PyDict d" "well_formed d"
    using salary_doc_well_formed by blast
  have "only_file (Doc (salary_doc x)) (summary_path example_cfg) = Some (Doc (PyDict d))"
    by (simp add: only_file_def example_summary_path d)
  from load_saved [of "only_file (Doc (salary_doc x))" example_cfg "PyDict d" d, OF this] d
  show ?thesis by simp
qed

text \<open>
  C6 at the example program, whose file holds a salary of 100, when the save of a salary
  of 200 fails half-way.
\<close>

theorem failed_save_hides_mutation_witness:
  "snd (snd (save_summary_data example_cfg (no_faults\<lparr>write_outcome := WriteFailed\<rparr>)
               (salary_doc 200) (only_file (Doc (salary_doc 100))))) = False
   \<and> snd (load_summary_data example_cfg no_faults
            (fst (save_summary_data example_cfg (no_faults\<lparr>write_outcome := WriteFailed\<rparr>)
                    (salary_doc 200) (only_file (Doc (salary_doc 100))))))
     = ([showwarning ''Corrupted File Replaced''
           ''Corrupted summary file replaced with a new blank file.''], Inr DEFAULT_SUMMARY)"
proof -
  let ?io = "no_faults\<lparr>write_outcome := WriteFailed\<rparr>"
  let ?files = "only_file (Doc (salary_doc 100))"
  have h: "snd (snd (save_summary_data example_cfg ?io (salary_doc 200) ?files)) = False"
    by (simp add: save_result no_faults_def)
  have f: "write_outcome ?io = WriteFailed" "\<not> read_fault no_faults" "\<not> unlink_fault no_faults"
    "write_outcome no_faults = Done"
    by (simp_all add: no_faults_def)
  show ?thesis
    using failed_save_hides_mutation
      [of example_cfg ?io "salary_doc 200" ?files "salary_doc 200" no_faults, OF h] h f
    by simp
qed

text \<open>
  Claim C6, as stated, fails there: the save reports failure, and the load that follows
  returns a salary of 0, while a load before the save returned the salary of 100. The
  state is not the one in which the submission did not happen.
\<close>

theorem failed_save_loses_totals:
  "snd (snd (save_summary_data example_cfg (no_faults\<lparr>write_outcome := WriteFailed\<rparr>)
               (salary_doc 200) (only_file (Doc (salary_doc 100))))) = False
   \<and> snd (snd (load_summary_data example_cfg no_faults (only_file (Doc (salary_doc 100)))))
       = Inr (salary_doc 100)
   \<and> snd (snd (load_summary_data example_cfg no_faults
            (fst (save_summary_data example_cfg (no_faults\<lparr>write_outcome := WriteFailed\<rparr>)
                    (salary_doc 200) (only_file (Doc (salary_doc 100)))))))
       = Inr (salary_doc 0)
   \<and> category_total (salary_doc 100) ''income'' ''Salary'' = Some (PyFloat (Finite 100))
   \<and> category_total (salary_doc 0) ''income'' ''Salary'' = Some (PyFloat (Finite 0))"
proof -
  let ?io = "no_faults\<lparr>write_outcome := WriteFailed\<rparr>"
  let ?files = "only_file (Doc (salary_doc 100))"
  let ?s = "fst (save_summary_data example_cfg ?io (salary_doc 200) ?files)"
  have 1: "snd (snd (save_summary_data example_cfg ?io (salary_doc 200) ?files)) = False"
    by (simp add: save_result no_faults_def)
  have 2: "snd (snd (load_summary_data example_cfg no_faults ?files)) = Inr (salary_doc 100)"
    by (simp add: load_salary_doc)
  have "?s = (make_backup example_cfg ?io ?files)(summary_path example_cfg \<mapsto> Garbage)"
    using save_failed [of ?io example_cfg "salary_doc 200" ?files] by (simp add: no_faults_def)
  then have "?s (summary_path example_cfg) = Some Garbage" by simp
  then have 3: "snd (snd (load_summary_data example_cfg no_faults ?s)) = Inr (salary_doc 0)"
    by (simp add: load_summary_data_def write_json_def Let_def no_faults_def salary_doc_zero)
  have 4: "category_total (salary_doc 100) ''income'' ''Salary'' = Some (PyFloat (Finite 100))"
    "category_total (salary_doc 0) ''income'' ''Salary'' = Some (PyFloat (Finite 0))"
    by (simp_all add: category_total_def salary_doc_def)
  show ?thesis using 1 2 3 4 by simp
qed

section \<open>Properties of the submit handlers\<close>


















section \<open>Properties of the summary calculator\<close>

lemma sum_floats_ok:
  "list_all convertible vs \<Longrightarrow> sum_floats acc vs = Inr (foldl fadd acc (map as_float vs))"
  by (induction vs arbitrary: acc) (auto simp: convertible_def as_float_def split: sum.splits)

lemma sum_floats_err:
  "\<not> list_all convertible vs \<Longrightarrow> \<exists>e. sum_floats acc vs = Inl e"
  by (induction vs arbitrary: acc) (auto simp: convertible_def split: sum.splits)


lemma well_formed_section:
  assumes "well_formed d"
  shows "\<exists>inc ex. get_section (PyDict d) ''income'' = Inr (PyDict inc)
           \<and> get_section (PyDict d) ''expenses'' = Inr (PyDict ex)
           \<and> section_values (PyDict d) ''income'' = map snd inc
           \<and> section_values (PyDict d) ''expenses'' = map snd ex"
  using assms
  by (auto simp: well_formed_def section_ok_def get_section_def section_values_def
      split: option.splits pyval.splits)

lemma values_total_ok:
  "list_all convertible (map snd sec) \<Longrightarrow>
     values_total (PyDict sec) = Inr (py_sum (map as_float (map snd sec)))"
  by (simp add: values_total_def dict_values_def py_sum_def sum_floats_ok)

lemma values_total_err:
  "\<not> list_all convertible (map snd sec) \<Longrightarrow> \<exists>e. values_total (PyDict sec) = Inl e"
  using sum_floats_err [of "map snd sec" "Finite 0"]
  by (simp add: values_total_def dict_values_def)

lemma calculate_summary_raises:
  assumes "load_summary_data cfg io files = (f1, s1, Inr data)"
    and "\<not> (list_all convertible (section_values data ''income'')
            \<and> list_all convertible (section_values data ''expenses''))"
  shows "\<exists>e. calculate_summary cfg io files = (f1, s1, Inl e)"
proof -
  obtain d where d: "data = PyDict d" and wf: "well_formed d"
    using load_result_well_formed [of cfg io files f1 s1 data, OF assms(1)] by blast
  from well_formed_section [OF wf] obtain inc ex where
    gi: "get_section data ''income'' = Inr (PyDict inc)"
    and ge: "get_section data ''expenses'' = Inr (PyDict ex)"
    and vi: "section_values data ''income'' = map snd inc"
    and ve: "section_values data ''expenses'' = map snd ex"
    unfolding d by blast
  show ?thesis
  proof (cases "list_all convertible (map snd inc)")
    case False
    then obtain e where "values_total (PyDict inc) = Inl e" using values_total_err by blast
    then show ?thesis using assms(1) gi by (simp add: calculate_summary_def)
  next
    case True
    then have ti: "values_total (PyDict inc) = Inr (section_sum data ''income'')"
      using values_total_ok [of inc] vi by (simp add: section_sum_def)
    from True assms(2) vi ve have "\<not> list_all convertible (map snd ex)" by simp
    then obtain e where "values_total (PyDict ex) = Inl e" using values_total_err by blast
    then show ?thesis using assms(1) gi ge ti by (simp add: calculate_summary_def)
  qed
qed






end
